theory Spec2Isabelle
  imports Complex_Main
begin

unbundle bit_operations_syntax

section \<open>JavaScript values\<close>

text \<open>
  Payloads, presences and option objects are dynamically typed in the source. They are
  embedded as a datatype of JSON-like values; an object keeps its properties in
  insertion order.
\<close>

datatype jsval =
    JUndef
  | JNull
  | JBool bool
  | JNum int
  | JStr string
  | JArr "jsval list"
  | JObj "(string \<times> jsval) list"

text \<open>The truth value JavaScript gives to a value in a condition.\<close>

fun truthy :: "jsval \<Rightarrow> bool" where
  "truthy JUndef = False"
| "truthy JNull = False"
| "truthy (JBool b) = b"
| "truthy (JNum n) = (n \<noteq> 0)"
| "truthy (JStr s) = (s \<noteq> [])"
| "truthy (JArr xs) = True"
| "truthy (JObj kvs) = True"

text \<open>\<open>v.k\<close>: a property that is absent, or read from a number or an array, is undefined.\<close>

fun get_prop :: "string \<Rightarrow> jsval \<Rightarrow> jsval" where
  "get_prop k (JObj kvs) = (case map_of kvs k of Some v \<Rightarrow> v | None \<Rightarrow> JUndef)"
| "get_prop k v = JUndef"

text \<open>\<open>delete v.k\<close>.\<close>

fun delete_prop :: "string \<Rightarrow> jsval \<Rightarrow> jsval" where
  "delete_prop k (JObj kvs) = JObj (filter (\<lambda>kv. fst kv \<noteq> k) kvs)"
| "delete_prop k v = v"

text \<open>\<open>v.k = x\<close> on an object: an existing property keeps its place.\<close>

fun set_prop :: "string \<Rightarrow> jsval \<Rightarrow> jsval \<Rightarrow> jsval" where
  "set_prop k x (JObj kvs) =
     (if k \<in> fst ` set kvs then JObj (map (\<lambda>kv. if fst kv = k then (k, x) else kv) kvs)
      else JObj (kvs @ [(k, x)]))"
| "set_prop k x v = v"

text \<open>Whether a property name occurs in an object (the field, whatever its value).\<close>

fun has_prop :: "string \<Rightarrow> jsval \<Rightarrow> bool" where
  "has_prop k (JObj kvs) = (k \<in> fst ` set kvs)"
| "has_prop k v = False"

text \<open>
  A nullable string (\<open>sessionID\<close>, \<open>_token\<close>) in a condition: null and the empty string
  are falsy.
\<close>

fun held :: "string option \<Rightarrow> bool" where
  "held None = False"
| "held (Some x) = (x \<noteq> [])"

fun str_or_null :: "string option \<Rightarrow> jsval" where
  "str_or_null None = JNull"
| "str_or_null (Some x) = JStr x"

fun num_or_null :: "int option \<Rightarrow> jsval" where
  "num_or_null None = JNull"
| "num_or_null (Some n) = JNum n"

fun num_or_undef :: "int option \<Rightarrow> jsval" where
  "num_or_undef None = JUndef"
| "num_or_undef (Some n) = JNum n"

section \<open>Gateway packets\<close>

text \<open>
  The names of the dispatch events whose cases of \<open>wsEvent\<close> are embedded; \<open>Unlisted\<close> is
  a name the switch has no case for. The cases that maintain the client's caches (among
  them \<open>READY\<close>) are not embedded, and their names are not part of the type.
\<close>

datatype event_name =
    CLUB_MEMBERS_CHUNK
  | CLUB_SYNC
  | RESUMED
  | MESSAGE_ACK
  | CLUB_INTEGRATIONS_UPDATE
  | USER_SETTINGS_UPDATE
  | CHANNEL_PINS_ACK
  | Unlisted string

text \<open>
  \<open>packet.d\<close>, typed where a case reads it: the payload of HELLO, the payload of a member
  chunk (a chunk's \<open>presences\<close> only update cached members and are left out), and any
  other value. \<open>packet.s\<close> and \<open>packet.d.nonce\<close> may be absent.
\<close>

datatype payload =
    Hello (heartbeat_interval: int) (hello_trace: jsval)
  | MembersChunk (chunk_club_id: string) (chunk_members: "jsval list")
      (chunk_nonce: "string option") (chunk_index: int) (chunk_count: int)
  | Data jsval

record packet =
  pkt_op :: nat
  pkt_s :: "int option"
  pkt_t :: event_name
  pkt_d :: payload

section \<open>Errors, emitted events and other effects\<close>

text \<open>
  A message built by concatenation or by a template string is kept as its fragments,
  literal text and interpolated values, so that no number formatting is modelled.
\<close>

datatype frag = L string | N int | J jsval

datatype js_error = JsError (message: "frag list") (err_code: "int option")

datatype arg = E js_error | T "frag list" | V jsval | P "packet"

text \<open>
  What a shard does to the outside: events it emits (\<open>Shard.emit\<close> forwards every event
  to the client, \<open>super.emit\<close> reaches the shard's own listeners only), frames written to
  the socket, socket and timer calls, promise resolutions and calls into the shard
  manager.
\<close>

datatype effect =
    Emit string "arg list"
  | SuperEmit string
  | WsSend nat jsval
  | WsClose nat string
  | WsTerminate
  | WsRemoveCloseListener
  | ClearInterval
  | SetInterval int
  | ClearConnectTimeout
  | ClearRequestTimeout string
  | SetRequestTimeout string nat
  | Resolve string jsval
  | ShardsConnect
  | SetTimeoutShardsConnect nat
  | ReadyPacketCB

section \<open>Constants of the gateway\<close>

text \<open>
  Modelled from the spec: the module \<open>Constants\<close> is not among the sources; the opcodes
  are those of the wire protocol in the specification (DISPATCH is \<open>EVENT\<close>,
  REQUEST_GUILD_MEMBERS is \<open>GET_CLUB_MEMBERS\<close>, SYNC_GUILD is \<open>SYNC_CLUB\<close> in the source).
\<close>

definition EVENT :: nat where "EVENT = 0"
definition HEARTBEAT :: nat where "HEARTBEAT = 1"
definition IDENTIFY :: nat where "IDENTIFY = 2"
definition STATUS_UPDATE :: nat where "STATUS_UPDATE = 3"
definition VOICE_STATE_UPDATE :: nat where "VOICE_STATE_UPDATE = 4"
definition RESUME :: nat where "RESUME = 6"
definition RECONNECT :: nat where "RECONNECT = 7"
definition GET_CLUB_MEMBERS :: nat where "GET_CLUB_MEMBERS = 8"
definition INVALID_SESSION :: nat where "INVALID_SESSION = 9"
definition HELLO :: nat where "HELLO = 10"
definition HEARTBEAT_ACK :: nat where "HEARTBEAT_ACK = 11"
definition SYNC_CLUB :: nat where "SYNC_CLUB = 12"

section \<open>The rate-limiting bucket\<close>

text \<open>
  Modelled from the spec: the class \<open>Bucket\<close> (util/Bucket) is not among the sources.
  The specification gives \<open>tokens\<close> executions per window, \<open>reservedTokens\<close> of them
  for priority tasks only; priority tasks are inserted ahead of the others, and tasks
  run first-in first-out within their class. A queued task is named by its number in the
  shard's task table. \<open>used\<close> counts the executions of the current window; the passing
  of time (the window's end) is not part of the model.
\<close>

record bucket =
  tokenLimit :: nat
  interval :: nat
  reservedTokens :: nat
  used :: nat
  queue :: "(nat \<times> bool) list"

definition new_Bucket :: "nat \<Rightarrow> nat \<Rightarrow> nat \<Rightarrow> bucket" where
  "new_Bucket limit ms reserved =
     \<lparr>tokenLimit = limit, interval = ms, reservedTokens = reserved, used = 0, queue = []\<rparr>"

definition enqueue :: "nat \<times> bool \<Rightarrow> (nat \<times> bool) list \<Rightarrow> (nat \<times> bool) list" where
  "enqueue item q =
     (if snd item then takeWhile snd q @ [item] @ dropWhile snd q else q @ [item])"

text \<open>
  The dispatch loop: the head of the queue runs while the budget allows it; the result is
  the tasks to run, in order, the tasks left waiting and the new count.
\<close>

fun drain :: "nat \<Rightarrow> nat \<Rightarrow> nat \<Rightarrow> (nat \<times> bool) list \<Rightarrow> nat list \<times> (nat \<times> bool) list \<times> nat" where
  "drain limit reserved n [] = ([], [], n)"
| "drain limit reserved n (item # q) =
     (if (if snd item then n < limit else n < limit - reserved)
      then (case drain limit reserved (Suc n) q of (run, rest, n') \<Rightarrow> (fst item # run, rest, n'))
      else ([], item # q, n))"

definition bucket_queue :: "nat \<Rightarrow> bool \<Rightarrow> bucket \<Rightarrow> nat list \<times> bucket" where
  "bucket_queue task priority b =
     (case drain (tokenLimit b) (reservedTokens b) (used b) (enqueue (task, priority) (queue b)) of
        (run, rest, n) \<Rightarrow> (run, b\<lparr>used := n, queue := rest\<rparr>))"

section \<open>The shard\<close>

text \<open>
  The class \<open>Shard\<close>, one gateway session. Embedded are \<open>checkReady\<close>, \<open>disconnect\<close>,
  \<open>emit\<close>, \<open>hardReset\<close>, \<open>heartbeat\<close>, \<open>identify\<close>, \<open>onPacket\<close>, \<open>requestClubMembers\<close>,
  \<open>requestClubSync\<close>, \<open>reset\<close>, \<open>resume\<close>, \<open>sendWS\<close>, the cases of \<open>wsEvent\<close> named by
  \<open>event_name\<close>, \<open>_onWSOpen\<close>, \<open>_onWSClose\<close> and \<open>_onWSMessage\<close> behind its decoder. A
  method takes the shard and returns it changed; what it does to the socket, to timers,
  to promises and to listeners is appended to the shard's trace. An object handed to
  \<open>sendWS\<close> is kept as the value it has at the call.
\<close>

datatype ready_state = CONNECTING | OPEN | CLOSING | CLOSED

datatype status = Disconnected | Connecting | Handshaking | Resuming | Ready

fun status_str :: "status \<Rightarrow> string" where
  "status_str Disconnected = ''disconnected''"
| "status_str Connecting = ''connecting''"
| "status_str Handshaking = ''handshaking''"
| "status_str Resuming = ''resuming''"
| "status_str Ready = ''ready''"

text \<open>\<open>client.options\<close>, the fields the shard reads.\<close>

record options =
  autoreconnect :: bool
  compress :: bool
  largeThreshold :: int
  clubSubscriptions :: bool
  intents :: "int option"
  maxShards :: nat
  maxResumeAttempts :: nat
  requestTimeout :: nat
  disableEvents :: "event_name \<Rightarrow> bool"

text \<open>
  The client as the shard sees it. \<open>clubs\<close> and \<open>unavailableClubs\<close> are the keys of the
  two collections; \<open>rawWS_listeners\<close> says whether the shard or the client has a listener
  for \<open>rawWS\<close>.
\<close>

record client =
  client_options :: options
  client_token :: "string option"
  client_presence :: jsval
  clubs :: "string list"
  unavailableClubs :: "string list"
  rawWS_listeners :: bool

text \<open>
  What the module reads from outside the class: whether a zlib module was found, and the
  values of \<open>Constants\<close> and of \<open>process.platform\<close>, taken as parameters.
\<close>

record modules =
  ZlibSync :: bool
  GATEWAY_VERSION :: int
  Intents_clubMembers :: int
  platform :: string

text \<open>An entry of \<open>requestMembersPromise\<close>; its resolver is named by the entry's nonce.\<close>

record member_request =
  received :: int
  members :: "jsval list"
  timeout :: nat

text \<open>The closure \<open>func\<close> that \<open>sendWS\<close> hands to the buckets, with its counter \<open>i\<close>.\<close>

record task =
  task_op :: nat
  task_data :: jsval
  waitFor :: nat
  fired :: nat

text \<open>
  The fields of a shard. A timer handle is kept as what identifies the timer
  (\<open>heartbeatInterval\<close>: the period of the running interval timer; \<open>connectTimeout\<close> and
  \<open>clubCreateTimeout\<close>: whether one is pending). \<open>latency\<close> is \<open>None\<close> for \<open>Infinity\<close>.
  \<open>now\<close>, \<open>random\<close> and \<open>nonces\<close> are what \<open>Date.now()\<close>, \<open>Math.random()\<close> and the
  nonce expression of \<open>requestClubMembers\<close> return next; \<open>trace\<close> collects the effects in
  the order they happen.
\<close>

record shard =
  shard_id :: nat
  the_client :: client
  the_modules :: modules
  ws :: "ready_state option"
  status :: status
  seq :: int
  sessionID :: "string option"
  the_token :: "string option"
  lastHeartbeatAck :: bool
  lastHeartbeatReceived :: "int option"
  lastHeartbeatSent :: "int option"
  latency :: "int option"
  heartbeatInterval :: "int option"
  connectTimeout :: bool
  clubCreateTimeout :: bool
  connecting :: bool
  ready :: bool
  preReady :: bool
  connectAttempts :: nat
  reconnectInterval :: nat
  requestMembersPromise :: "(string \<times> member_request) list"
  getAllUsersCount :: "string list"
  getAllUsersQueue :: "string list"
  getAllUsersLength :: nat
  clubSyncQueue :: "string list"
  clubSyncQueueLength :: nat
  unsyncedClubs :: int
  globalBucket :: bucket
  presenceUpdateBucket :: bucket
  presence :: jsval
  helseliaServerTrace :: jsval
  tasks :: "nat \<rightharpoonup> task"
  nextTask :: nat
  now :: int
  random :: rat
  nonces :: "nat \<Rightarrow> string"
  drawn :: nat
  trace :: "effect list"

definition effect :: "effect \<Rightarrow> shard \<Rightarrow> shard" where
  "effect e sh = sh\<lparr>trace := trace sh @ [e]\<rparr>"

definition emit :: "string \<Rightarrow> arg list \<Rightarrow> shard \<Rightarrow> shard" where
  "emit event args sh = effect (Emit event args) sh"

definition the_id :: "shard \<Rightarrow> arg" where
  "the_id sh = V (JNum (int (shard_id sh)))"

subsection \<open>The send path\<close>

text \<open>
  \<open>func\<close> of \<open>sendWS\<close>: the counter goes up; once it reaches \<open>waitFor\<close> and the socket is
  open, the frame \<open>{op, d}\<close> is written to the socket with the data as it is, then a truthy
  \<open>token\<close> property is deleted from the data and the \<open>debug\<close> event carries the frame
  built from what is left.
\<close>

definition run_task :: "nat \<Rightarrow> shard \<Rightarrow> shard" where
  "run_task n sh =
     (case tasks sh n of
        None \<Rightarrow> sh
      | Some tk \<Rightarrow>
          let i = Suc (fired tk);
              sh1 = sh\<lparr>tasks := (tasks sh)(n \<mapsto> tk\<lparr>fired := i\<rparr>)\<rparr>
          in if waitFor tk \<le> i \<and> ws sh = Some OPEN
             then
               let data = task_data tk;
                   sh2 = effect (WsSend (task_op tk) data) sh1;
                   data' = (if truthy (get_prop ''token'' data) then delete_prop ''token'' data
                            else data);
                   sh3 = sh2\<lparr>tasks := (tasks sh2)(n \<mapsto> tk\<lparr>fired := i, task_data := data'\<rparr>)\<rparr>
               in emit ''debug''
                    [V (JObj [(''op'', JNum (int (task_op tk))), (''d'', data')]), the_id sh3] sh3
             else sh1)"

fun run_tasks :: "nat list \<Rightarrow> shard \<Rightarrow> shard" where
  "run_tasks [] sh = sh"
| "run_tasks (n # ns) sh = run_tasks ns (run_task n sh)"

definition presenceUpdateBucket_queue :: "nat \<Rightarrow> bool \<Rightarrow> shard \<Rightarrow> shard" where
  "presenceUpdateBucket_queue n priority sh =
     (case bucket_queue n priority (presenceUpdateBucket sh) of
        (run, b) \<Rightarrow> run_tasks run (sh\<lparr>presenceUpdateBucket := b\<rparr>))"

definition globalBucket_queue :: "nat \<Rightarrow> bool \<Rightarrow> shard \<Rightarrow> shard" where
  "globalBucket_queue n priority sh =
     (case bucket_queue n priority (globalBucket sh) of
        (run, b) \<Rightarrow> run_tasks run (sh\<lparr>globalBucket := b\<rparr>))"

definition sendWS :: "nat \<Rightarrow> jsval \<Rightarrow> bool \<Rightarrow> shard \<Rightarrow> shard" where
  "sendWS opc data priority sh =
     (if ws sh = Some OPEN
      then
        let n = nextTask sh;
            tk = \<lparr>task_op = opc, task_data = data,
                  waitFor = (if opc = STATUS_UPDATE then 2 else 1), fired = 0\<rparr>;
            sh1 = sh\<lparr>tasks := (tasks sh)(n \<mapsto> tk), nextTask := Suc n\<rparr>;
            sh2 = (if opc = STATUS_UPDATE then presenceUpdateBucket_queue n priority sh1 else sh1)
        in globalBucket_queue n priority sh2
      else sh)"

subsection \<open>reset, hardReset, disconnect\<close>

fun settle_requests :: "(string \<times> member_request) list \<Rightarrow> shard \<Rightarrow> shard" where
  "settle_requests [] sh = sh"
| "settle_requests (entry # entries) sh =
     settle_requests entries
       (effect (Resolve (fst entry) (JNum (received (snd entry))))
          (effect (ClearRequestTimeout (fst entry)) sh))"

definition reset :: "shard \<Rightarrow> shard" where
  "reset sh =
     (let sh1 = settle_requests (requestMembersPromise sh)
                  (sh\<lparr>connecting := False, ready := False, preReady := False\<rparr>);
          sh2 = sh1\<lparr>requestMembersPromise := [], getAllUsersCount := [], getAllUsersQueue := [],
                    getAllUsersLength := 1, clubSyncQueue := [], clubSyncQueueLength := 1,
                    unsyncedClubs := 0, latency := None, lastHeartbeatAck := True,
                    lastHeartbeatReceived := None, lastHeartbeatSent := None,
                    status := Disconnected\<rparr>;
          sh3 = (if connectTimeout sh2 then effect ClearConnectTimeout sh2 else sh2)
      in sh3\<lparr>connectTimeout := False\<rparr>)"

definition hardReset :: "shard \<Rightarrow> shard" where
  "hardReset sh =
     (let sh1 = reset sh
      in sh1\<lparr>seq := 0, sessionID := None, reconnectInterval := 1000, connectAttempts := 0,
             ws := None, heartbeatInterval := None, clubCreateTimeout := False,
             globalBucket := new_Bucket 120 60000 5,
             presenceUpdateBucket := new_Bucket 5 60000 0,
             presence := client_presence (the_client sh1),
             the_token := client_token (the_client sh1)\<rparr>)"

text \<open>\<open>options.reconnect\<close>: absent or false, true, or \<open>"auto"\<close>.\<close>

datatype reconnect = NoReconnect | Reconnect | Auto

text \<open>\<open>Math.round\<close> of a non-negative product, over the rationals.\<close>

definition Math_round :: "rat \<Rightarrow> nat" where
  "Math_round x = nat \<lfloor>x + 1 / 2\<rfloor>"

text \<open>
  \<open>disconnect(options, error)\<close>, block by block: the heartbeat timer is stopped; a socket
  that is not closed is closed (its \<open>close\<close> and \<open>terminate\<close> are taken not to throw);
  after \<open>reset\<close> the error and \<open>disconnect\<close> are emitted; a session that was resumed too
  often is given up; then the shard reconnects, or is reset for good.
\<close>

definition stop_heartbeat :: "shard \<Rightarrow> shard" where
  "stop_heartbeat sh =
     (if heartbeatInterval sh \<noteq> None
      then (effect ClearInterval sh)\<lparr>heartbeatInterval := None\<rparr> else sh)"

definition close_socket :: "reconnect \<Rightarrow> ready_state \<Rightarrow> shard \<Rightarrow> shard" where
  "close_socket rc rs sh =
     (if rs \<noteq> CLOSED
      then effect
             (if rc \<noteq> NoReconnect \<and> held (sessionID sh)
              then (if rs = OPEN then WsClose 4901 ''Reconnect: Kiera'' else WsTerminate)
              else WsClose 1000 ''Normal: Kiera'')
             (effect WsRemoveCloseListener sh)
      else sh)"

definition emit_error :: "js_error option \<Rightarrow> shard \<Rightarrow> shard" where
  "emit_error error sh =
     (case error of
        Some err \<Rightarrow> emit ''error'' [E err, the_id sh] sh
      | None \<Rightarrow> sh)"

definition invalidate_session :: "shard \<Rightarrow> shard" where
  "invalidate_session sh =
     (if held (sessionID sh)
         \<and> maxResumeAttempts (client_options (the_client sh)) \<le> connectAttempts sh
      then (emit ''debug''
              [T [L ''Automatically invalidating session due to excessive resume attempts | Attempt '',
                  N (int (connectAttempts sh))], the_id sh] sh)
           \<lparr>sessionID := None\<rparr>
      else sh)"

definition reconnect_or_reset :: "reconnect \<Rightarrow> shard \<Rightarrow> shard" where
  "reconnect_or_reset rc sh =
     (if rc = Auto \<and> autoreconnect (client_options (the_client sh))
      then
        (if held (sessionID sh)
         then effect ShardsConnect
                (emit ''debug''
                   [T [L ''Immediately reconnecting for potential resume | Attempt '',
                       N (int (connectAttempts sh))], the_id sh] sh)
         else (effect (SetTimeoutShardsConnect (reconnectInterval sh))
                 (emit ''debug''
                    [T [L ''Queueing reconnect in '', N (int (reconnectInterval sh)),
                        L ''ms | Attempt '', N (int (connectAttempts sh))], the_id sh] sh))
              \<lparr>reconnectInterval :=
                 min (Math_round (of_nat (reconnectInterval sh) * (random sh * 2 + 1))) 30000\<rparr>)
      else if rc = NoReconnect then hardReset sh
      else sh)"

definition disconnect :: "reconnect \<Rightarrow> js_error option \<Rightarrow> shard \<Rightarrow> shard" where
  "disconnect rc error sh =
     (case ws sh of
        None \<Rightarrow> sh
      | Some rs \<Rightarrow>
          let sh1 = close_socket rc rs (stop_heartbeat sh);
              sh2 = reset (sh1\<lparr>ws := None\<rparr>);
              sh3 = effect (SuperEmit ''disconnect'') (emit_error error sh2)
          in reconnect_or_reset rc (invalidate_session sh3))"

subsection \<open>heartbeat, identify, resume\<close>

definition heartbeat :: "bool \<Rightarrow> shard \<Rightarrow> shard" where
  "heartbeat normal sh =
     (if status sh = Resuming then sh
      else if normal \<and> \<not> lastHeartbeatAck sh
      then disconnect Auto
             (Some (JsError
                [L ''Server didn't acknowledge previous heartbeat, possible lost connection''] None))
             (emit ''debug''
                [T [L ''Heartbeat timeout; '',
                    J (JObj [(''lastReceived'', num_or_null (lastHeartbeatReceived sh)),
                             (''lastSent'', num_or_null (lastHeartbeatSent sh)),
                             (''interval'', num_or_null (heartbeatInterval sh)),
                             (''status'', JStr (status_str (status sh))),
                             (''timestamp'', JNum (now sh))])]] sh)
      else
        let sh1 = (if normal then sh\<lparr>lastHeartbeatAck := False\<rparr> else sh);
            sh2 = sh1\<lparr>lastHeartbeatSent := Some (now sh1)\<rparr>
        in sendWS HEARTBEAT (JNum (seq sh2)) True sh2)"

text \<open>The object \<open>identify\<close> that the method of that name builds.\<close>

definition identify_payload :: "shard \<Rightarrow> jsval" where
  "identify_payload sh =
     (let opts = client_options (the_client sh);
          ident = JObj [(''token'', str_or_null (the_token sh)),
                        (''v'', JNum (GATEWAY_VERSION (the_modules sh))),
                        (''compress'', JBool (compress opts)),
                        (''large_threshold'', JNum (largeThreshold opts)),
                        (''club_subscriptions'', JBool (clubSubscriptions opts)),
                        (''intents'', num_or_undef (intents opts)),
                        (''properties'', JObj [(''os'', JStr (platform (the_modules sh))),
                                               (''browser'', JStr ''Helselia''),
                                               (''device'', JStr ''Helselia'')])];
          ident1 = (if 1 < maxShards opts
                    then set_prop ''shard''
                           (JArr [JNum (int (shard_id sh)), JNum (int (maxShards opts))]) ident
                    else ident)
      in if truthy (get_prop ''status'' (presence sh))
         then set_prop ''presence'' (presence sh) ident1
         else ident1)"

definition identify :: "shard \<Rightarrow> shard" where
  "identify sh =
     (if compress (client_options (the_client sh)) \<and> \<not> ZlibSync (the_modules sh)
      then emit ''error''
             [E (JsError [L ''pako/zlib-sync not found, cannot decompress data''] None)] sh
      else sendWS IDENTIFY (identify_payload sh) False sh)"

text \<open>The object that \<open>resume\<close> sends.\<close>

definition resume_payload :: "shard \<Rightarrow> jsval" where
  "resume_payload sh =
     JObj [(''token'', str_or_null (the_token sh)),
           (''session_id'', str_or_null (sessionID sh)),
           (''seq'', JNum (seq sh))]"

definition resume :: "shard \<Rightarrow> shard" where
  "resume sh =
     (let sh1 = sh\<lparr>status := Resuming\<rparr>
      in sendWS RESUME (resume_payload sh1) False sh1)"

subsection \<open>Member requests and the readiness check\<close>

text \<open>A function that may throw returns the shard as it is at the throw.\<close>

datatype outcome = Returns shard | Throws js_error shard

fun and_then :: "outcome \<Rightarrow> (shard \<Rightarrow> shard) \<Rightarrow> outcome" where
  "and_then (Returns sh) f = Returns (f sh)"
| "and_then (Throws err sh) f = Throws err sh"

fun shard_of :: "outcome \<Rightarrow> shard" where
  "shard_of (Returns sh) = sh"
| "shard_of (Throws err sh) = sh"

text \<open>\<open>obj[k] = v\<close> and \<open>delete obj[k]\<close> on an object kept as a list of entries.\<close>

fun assign :: "string \<Rightarrow> 'a \<Rightarrow> (string \<times> 'a) list \<Rightarrow> (string \<times> 'a) list" where
  "assign k v [] = [(k, v)]"
| "assign k v (entry # entries) =
     (if fst entry = k then (k, v) # entries else entry # assign k v entries)"

definition remove_key :: "string \<Rightarrow> (string \<times> 'a) list \<Rightarrow> (string \<times> 'a) list" where
  "remove_key k entries = filter (\<lambda>entry. fst entry \<noteq> k) entries"

record request_options =
  opt_limit :: "int option"
  opt_userIDs :: "string list option"
  opt_query :: "string option"
  opt_presences :: "bool option"
  opt_timeout :: "nat option"

definition or_default :: "nat option \<Rightarrow> nat \<Rightarrow> nat" where
  "or_default x d = (case x of Some n \<Rightarrow> (if n \<noteq> 0 then n else d) | None \<Rightarrow> d)"

definition requestClubMembers :: "jsval \<Rightarrow> request_options option \<Rightarrow> shard \<Rightarrow> outcome" where
  "requestClubMembers clubID options sh =
     (let nonce = nonces sh (drawn sh);
          sh0 = sh\<lparr>drawn := Suc (drawn sh)\<rparr>;
          limit = (case Option.bind options opt_limit of Some n \<Rightarrow> n | None \<Rightarrow> 0);
          user_ids = Option.bind options opt_userIDs;
          query = Option.bind options opt_query;
          query1 = (if user_ids = None \<and> \<not> held query then Some [] else query);
          its = intents (client_options (the_client sh0));
          opts = JObj [(''club_id'', clubID),
                       (''limit'', JNum limit),
                       (''user_ids'', (case user_ids of Some ids \<Rightarrow> JArr (map JStr ids)
                                       | None \<Rightarrow> JUndef)),
                       (''query'', (case query1 of Some q \<Rightarrow> JStr q | None \<Rightarrow> JUndef)),
                       (''nonce'', JStr nonce),
                       (''presences'', (case Option.bind options opt_presences of
                                          Some b \<Rightarrow> JBool b | None \<Rightarrow> JUndef))]
      in if \<not> held query1 \<and> truthy (num_or_undef its)
              \<and> ((case its of Some n \<Rightarrow> n | None \<Rightarrow> 0) AND Intents_clubMembers (the_modules sh0)) = 0
         then Throws (JsError [L ''Cannot request all members without clubMembers intent''] None) sh0
         else if (case user_ids of Some ids \<Rightarrow> 100 < length ids | None \<Rightarrow> False)
         then Throws (JsError [L ''Cannot request more than 100 users by their ID''] None) sh0
         else
           let sh1 = sendWS GET_CLUB_MEMBERS opts False sh0;
               delay = or_default (Option.bind options opt_timeout)
                         (requestTimeout (client_options (the_client sh1)));
               sh2 = effect (SetRequestTimeout nonce delay) sh1
           in Returns (sh2\<lparr>requestMembersPromise :=
                             assign nonce \<lparr>received = 0, members = [], timeout = delay\<rparr>
                               (requestMembersPromise sh2)\<rparr>))"

text \<open>
  The callback of a request's timer. The timer of an entry is cleared whenever the entry
  goes, so it fires only while the entry is there.
\<close>

definition request_timeout :: "string \<Rightarrow> shard \<Rightarrow> shard" where
  "request_timeout nonce sh =
     (case map_of (requestMembersPromise sh) nonce of
        None \<Rightarrow> sh
      | Some r \<Rightarrow>
          (effect (Resolve nonce (JArr (members r))) sh)
            \<lparr>requestMembersPromise := remove_key nonce (requestMembersPromise sh)\<rparr>)"

definition requestClubSync :: "jsval \<Rightarrow> shard \<Rightarrow> shard" where
  "requestClubSync clubID sh = sendWS SYNC_CLUB clubID False sh"

definition checkReady :: "shard \<Rightarrow> outcome" where
  "checkReady sh =
     (if ready sh then Returns sh
      else if clubSyncQueue sh \<noteq> []
      then Returns ((requestClubSync (JArr (map JStr (clubSyncQueue sh))) sh)
                      \<lparr>clubSyncQueue := [], clubSyncQueueLength := 1\<rparr>)
      else if 0 < unsyncedClubs sh then Returns sh
      else if getAllUsersQueue sh \<noteq> []
      then and_then (requestClubMembers (JArr (map JStr (getAllUsersQueue sh))) None sh)
             (\<lambda>sh1. sh1\<lparr>getAllUsersQueue := [], getAllUsersLength := 1\<rparr>)
      else if getAllUsersCount sh = []
      then Returns (effect (SuperEmit ''ready'') (sh\<lparr>ready := True\<rparr>))
      else Returns sh)"

subsection \<open>wsEvent\<close>

text \<open>
  \<open>club.members.add\<close> gives the member object of a chunk's entry; the model writes it as
  the entry with its \<open>id\<close> set from \<open>user.id\<close>. A club is named by its id. A payload that
  has not the shape its case reads is taken to throw, as reading a property of
  \<open>undefined\<close> does.
\<close>

definition TypeError :: js_error where
  "TypeError = JsError [L ''TypeError''] None"

definition nonce_key :: "string option \<Rightarrow> string" where
  "nonce_key n = (case n of Some k \<Rightarrow> k | None \<Rightarrow> ''undefined'')"

definition push_members :: "jsval list \<Rightarrow> member_request \<Rightarrow> member_request" where
  "push_members ms r = r\<lparr>members := members r @ ms\<rparr>"

definition members_chunk :: "packet \<Rightarrow> shard \<Rightarrow> outcome" where
  "members_chunk p sh =
     (case pkt_d p of
        MembersChunk club_id ms nonce idx cnt \<Rightarrow>
          if club_id \<notin> set (clubs (the_client sh))
          then Returns (emit ''debug''
                          [T [L ''Received CLUB_MEMBERS_CHUNK, but club '', L club_id, L '' is '',
                              L (if club_id \<in> set (unavailableClubs (the_client sh))
                                 then ''unavailable'' else ''missing'')], the_id sh] sh)
          else
            let key = nonce_key nonce;
                chunk = map (\<lambda>member. set_prop ''id'' (get_prop ''id'' (get_prop ''user'' member)) member) ms;
                sh1 = (case map_of (requestMembersPromise sh) key of
                         Some r \<Rightarrow> sh\<lparr>requestMembersPromise :=
                                        assign key (push_members chunk r) (requestMembersPromise sh)\<rparr>
                       | None \<Rightarrow> sh);
                res = (if cnt - 1 \<le> idx
                       then
                         let sh2 = (case map_of (requestMembersPromise sh1) key of
                                      Some r \<Rightarrow>
                                        (effect (Resolve key (JArr (members r)))
                                           (effect (ClearRequestTimeout key) sh1))
                                          \<lparr>requestMembersPromise :=
                                             remove_key key (requestMembersPromise sh1)\<rparr>
                                    | None \<Rightarrow> sh1)
                         in if club_id \<in> set (getAllUsersCount sh2)
                            then checkReady (sh2\<lparr>getAllUsersCount := removeAll club_id (getAllUsersCount sh2)\<rparr>)
                            else Returns sh2
                       else Returns sh1)
            in and_then res
                 (\<lambda>sh3. (emit ''clubMemberChunk'' [V (JStr club_id), V (JArr chunk)] sh3)
                           \<lparr>lastHeartbeatAck := True\<rparr>)
      | _ \<Rightarrow> Throws TypeError sh)"

text \<open>\<open>if(this.connectTimeout) clearTimeout(this.connectTimeout); this.connectTimeout = null\<close>.\<close>

definition clear_connectTimeout :: "shard \<Rightarrow> shard" where
  "clear_connectTimeout sh =
     (if connectTimeout sh then effect ClearConnectTimeout sh else sh)\<lparr>connectTimeout := False\<rparr>"

definition resumed :: "shard \<Rightarrow> shard" where
  "resumed sh =
     (let sh1 = sh\<lparr>connectAttempts := 0, reconnectInterval := 1000, connecting := False\<rparr>;
          sh2 = clear_connectTimeout sh1;
          sh3 = sh2\<lparr>status := Ready,
                    presence := set_prop ''status'' (JStr ''online'') (presence sh2)\<rparr>;
          sh4 = heartbeat False (effect ReadyPacketCB sh3)
      in effect (SuperEmit ''resume'') (sh4\<lparr>preReady := True, ready := True\<rparr>))"

definition wsEvent :: "packet \<Rightarrow> shard \<Rightarrow> outcome" where
  "wsEvent p sh =
     (case pkt_t p of
        CLUB_MEMBERS_CHUNK \<Rightarrow> members_chunk p sh
      | CLUB_SYNC \<Rightarrow> checkReady (sh\<lparr>unsyncedClubs := unsyncedClubs sh - 1\<rparr>)
      | RESUMED \<Rightarrow> Returns (resumed sh)
      | MESSAGE_ACK \<Rightarrow> Returns sh
      | CLUB_INTEGRATIONS_UPDATE \<Rightarrow> Returns sh
      | USER_SETTINGS_UPDATE \<Rightarrow> Returns sh
      | CHANNEL_PINS_ACK \<Rightarrow> Returns sh
      | Unlisted name \<Rightarrow> Returns (emit ''unknown'' [P p, the_id sh] sh))"

subsection \<open>onPacket\<close>

text \<open>The update of the sequence counter at the head of \<open>onPacket\<close>.\<close>

definition sequence_update :: "packet \<Rightarrow> shard \<Rightarrow> shard" where
  "sequence_update p sh =
     (case pkt_s p of
        None \<Rightarrow> sh
      | Some n \<Rightarrow>
          if n = 0 then sh
          else
            (if seq sh + 1 < n \<and> ws sh \<noteq> None \<and> status sh \<noteq> Resuming
             then emit ''warn''
                    [T [L ''Non-consecutive sequence ('', N (seq sh), L '' -> '', N n, L '')''],
                     the_id sh] sh
             else sh)\<lparr>seq := n\<rparr>)"

text \<open>The interval timer that HELLO starts, in place of a running one.\<close>

definition start_heartbeat :: "int \<Rightarrow> shard \<Rightarrow> shard" where
  "start_heartbeat ms sh =
     (if 0 < ms
      then (effect (SetInterval ms)
              (if heartbeatInterval sh \<noteq> None then effect ClearInterval sh else sh))
           \<lparr>heartbeatInterval := Some ms\<rparr>
      else sh)"

definition hello :: "packet \<Rightarrow> shard \<Rightarrow> outcome" where
  "hello p sh =
     (case pkt_d p of
        Hello ms tr \<Rightarrow>
          let sh1 = (start_heartbeat ms sh)\<lparr>helseliaServerTrace := tr, connecting := False\<rparr>;
              sh2 = clear_connectTimeout sh1;
              sh3 = (if held (sessionID sh2) then resume sh2
                     else heartbeat False (identify sh2))
          in Returns (emit ''hello'' [V tr, the_id sh3] sh3)
      | _ \<Rightarrow> Throws TypeError sh)"

definition invalid_session :: "shard \<Rightarrow> shard" where
  "invalid_session sh =
     (let sh1 = sh\<lparr>seq := 0, sessionID := None\<rparr>
      in identify (emit ''warn'' [T [L ''Invalid session, reidentifying!''], the_id sh1] sh1))"

definition heartbeat_ack :: "shard \<Rightarrow> shard" where
  "heartbeat_ack sh =
     sh\<lparr>lastHeartbeatAck := True, lastHeartbeatReceived := Some (now sh),
        latency := Some (now sh - (case lastHeartbeatSent sh of Some t \<Rightarrow> t | None \<Rightarrow> 0))\<rparr>"

text \<open>The three statements of \<open>onPacket\<close>: the \<open>rawWS\<close> event, the counter, the switch.\<close>

definition raw_event :: "packet \<Rightarrow> shard \<Rightarrow> shard" where
  "raw_event p sh =
     (if rawWS_listeners (the_client sh) then emit ''rawWS'' [P p, the_id sh] sh else sh)"

definition op_switch :: "packet \<Rightarrow> shard \<Rightarrow> outcome" where
  "op_switch p sh =
     (if pkt_op p = EVENT
      then (if disableEvents (client_options (the_client sh)) (pkt_t p) then Returns sh
            else wsEvent p sh)
      else if pkt_op p = HEARTBEAT then Returns (heartbeat False sh)
      else if pkt_op p = INVALID_SESSION then Returns (invalid_session sh)
      else if pkt_op p = RECONNECT then Returns (disconnect Auto None sh)
      else if pkt_op p = HELLO then hello p sh
      else if pkt_op p = HEARTBEAT_ACK then Returns (heartbeat_ack sh)
      else Returns (emit ''unknown'' [P p, the_id sh] sh))"

definition onPacket :: "packet \<Rightarrow> shard \<Rightarrow> outcome" where
  "onPacket p sh = op_switch p (sequence_update p (raw_event p sh))"

text \<open>
  \<open>_onWSMessage\<close> once the frame is decoded: what \<open>onPacket\<close> throws is caught and
  emitted as an error.
\<close>

definition onWSMessage :: "packet \<Rightarrow> shard \<Rightarrow> shard" where
  "onWSMessage p sh =
     (case onPacket p sh of
        Returns sh1 \<Rightarrow> sh1
      | Throws err sh1 \<Rightarrow> emit ''error'' [E err, the_id sh1] sh1)"

definition onWSOpen :: "shard \<Rightarrow> shard" where
  "onWSOpen sh =
     (let sh1 = sh\<lparr>status := Handshaking\<rparr>
      in (emit ''connect'' [the_id sh1] sh1)\<lparr>lastHeartbeatAck := True\<rparr>)"

text \<open>The callback of the interval timer that HELLO starts.\<close>

definition heartbeat_timer :: "shard \<Rightarrow> shard" where
  "heartbeat_timer sh = heartbeat True sh"

subsection \<open>The close handler\<close>




section \<open>The voice connection manager\<close>

text \<open>
  The closures that \<open>join\<close> and \<open>voiceServerUpdate\<close> register on a connection, named by
  what they close over: the club of the connection and, for those of \<open>join\<close>, the
  promise they settle.
\<close>

datatype handler =
    JoinReady string nat
  | JoinDisconnect string nat
  | JoinError string nat
  | UpdateReady string
  | UpdateDisconnect string
  | UpdateError string

text \<open>
  Modelled from the spec: the class \<open>VoiceConnection\<close> and the class \<open>Collection\<close> are not
  among the sources. A connection is what the manager reads of it (\<open>ws\<close>, \<open>ready\<close>,
  \<open>channelID\<close>), the options it was constructed with and its one-shot listeners; the
  collection is a map from club ids. A call into a connection is recorded; what the call
  does to the connection is outside the model.
\<close>

record connection =
  conn_ws :: bool
  conn_ready :: bool
  conn_channelID :: jsval
  conn_options :: jsval
  listeners :: "(string \<times> handler) list"

record pending_join =
  channelID :: jsval
  join_options :: jsval
  promise :: nat
  join_timeout :: "nat option"
  waiting :: bool

datatype call =
    Resolved nat string
  | Rejected nat js_error
  | SetTimeout nat nat
  | ClearTimeout nat
  | SwitchChannel string jsval
  | Switch string jsval
  | Connect string jsval
  | Disconnect string
  | Destroy string

text \<open>
  The manager: the collection, \<open>pendingClubs\<close>, the timers that are pending (each with the
  club and the promise its callback closes over), the counters that name new promises
  and timers, and the calls made so far.
\<close>

record manager =
  connections :: "string \<rightharpoonup> connection"
  pendingClubs :: "string \<rightharpoonup> pending_join"
  timers :: "nat \<rightharpoonup> string \<times> nat"
  nextPromise :: nat
  nextTimer :: nat
  calls :: "call list"

record server_update =
  club_id :: string
  endpoint :: jsval
  voice_token :: jsval
  session_id :: jsval
  user_id :: jsval
  update_shard :: jsval

definition call :: "call \<Rightarrow> manager \<Rightarrow> manager" where
  "call c m = m\<lparr>calls := calls m @ [c]\<rparr>"

definition once :: "string \<Rightarrow> (string \<times> handler) list \<Rightarrow> manager \<Rightarrow> manager" where
  "once cid hs m =
     (case connections m cid of
        None \<Rightarrow> m
      | Some c \<Rightarrow> m\<lparr>connections := (connections m)(cid \<mapsto> c\<lparr>listeners := listeners c @ hs\<rparr>)\<rparr>)"

definition removeListener :: "string \<Rightarrow> string \<times> handler \<Rightarrow> manager \<Rightarrow> manager" where
  "removeListener cid h m =
     (case connections m cid of
        None \<Rightarrow> m
      | Some c \<Rightarrow> m\<lparr>connections := (connections m)(cid \<mapsto> c\<lparr>listeners := remove1 h (listeners c)\<rparr>)\<rparr>)"


text \<open>The last statement of \<open>join\<close>: the pending entry and its timer of ten seconds.\<close>

definition join_pending :: "string \<Rightarrow> jsval \<Rightarrow> jsval \<Rightarrow> nat \<Rightarrow> manager \<Rightarrow> manager" where
  "join_pending clubID chan opts p m =
     (let h = nextTimer m;
          m1 = call (SetTimeout h 10000)
                 (m\<lparr>nextTimer := Suc h, timers := (timers m)(h \<mapsto> (clubID, p))\<rparr>)
      in m1\<lparr>pendingClubs := (pendingClubs m1)(clubID \<mapsto>
              \<lparr>channelID = chan,
               join_options = (if truthy opts then opts else JObj []),
               promise = p, join_timeout = Some h, waiting = False\<rparr>)\<rparr>)"

text \<open>
  \<open>join\<close> returns a promise, named by a new number; a promise that is settled at once is
  recorded as such.
\<close>

definition join :: "string \<Rightarrow> jsval \<Rightarrow> jsval \<Rightarrow> manager \<Rightarrow> nat \<times> manager" where
  "join clubID chan opts m =
     (let p = nextPromise m;
          m0 = m\<lparr>nextPromise := Suc p\<rparr>
      in case connections m clubID of
           Some c \<Rightarrow>
             if conn_ws c
             then
               (let m1 = call (SwitchChannel clubID chan) m0
                in if conn_ready c then (p, call (Resolved p clubID) m1)
                   else (p, once clubID
                              [(''ready'', JoinReady clubID p),
                               (''disconnect'', JoinDisconnect clubID p),
                               (''error'', JoinError clubID p)] m1))
             else (p, join_pending clubID chan opts p m0)
         | None \<Rightarrow> (p, join_pending clubID chan opts p m0))"


definition leave :: "string \<Rightarrow> manager \<Rightarrow> manager" where
  "leave clubID m =
     (case connections m clubID of
        None \<Rightarrow> m
      | Some c \<Rightarrow>
          (call (Destroy clubID) (call (Disconnect clubID) m))
            \<lparr>connections := (connections m)(clubID := None)\<rparr>)"

definition switch :: "string \<Rightarrow> jsval \<Rightarrow> manager \<Rightarrow> manager" where
  "switch clubID chan m =
     (case connections m clubID of
        None \<Rightarrow> m
      | Some c \<Rightarrow> call (Switch clubID chan) m)"

definition voiceServerUpdate :: "server_update \<Rightarrow> manager \<Rightarrow> manager" where
  "voiceServerUpdate data m =
     (let cid = club_id data;
          m1 = (case pendingClubs m cid of
                  Some pj \<Rightarrow>
                    (case join_timeout pj of
                       Some h \<Rightarrow>
                         (call (ClearTimeout h) m)
                           \<lparr>timers := (timers m)(h := None),
                            pendingClubs := (pendingClubs m)(cid \<mapsto> pj\<lparr>join_timeout := None\<rparr>)\<rparr>
                     | None \<Rightarrow> m)
                | None \<Rightarrow> m)
      in if connections m1 cid = None \<and> pendingClubs m1 cid = None then m1
         else
           let m2 = (case connections m1 cid of
                       Some c \<Rightarrow> m1
                     | None \<Rightarrow>
                         m1\<lparr>connections := (connections m1)(cid \<mapsto>
                              \<lparr>conn_ws = False, conn_ready = False, conn_channelID = JUndef,
                               conn_options =
                                 JObj [(''shard'', update_shard data),
                                       (''opusOnly'',
                                        (case pendingClubs m1 cid of
                                           Some pj \<Rightarrow> get_prop ''opusOnly'' (join_options pj)
                                         | None \<Rightarrow> JUndef)),
                                       (''shared'',
                                        (case pendingClubs m1 cid of
                                           Some pj \<Rightarrow> get_prop ''shared'' (join_options pj)
                                         | None \<Rightarrow> JUndef))],
                               listeners = []\<rparr>)\<rparr>);
               chan = (case pendingClubs m2 cid of
                         Some pj \<Rightarrow> channelID pj
                       | None \<Rightarrow> (case connections m2 cid of
                                     Some c \<Rightarrow> conn_channelID c | None \<Rightarrow> JUndef));
               m3 = call (Connect cid
                            (JObj [(''channel_id'', chan), (''endpoint'', endpoint data),
                                   (''token'', voice_token data),
                                   (''session_id'', session_id data),
                                   (''user_id'', user_id data)])) m2
           in case pendingClubs m3 cid of
                None \<Rightarrow> m3
              | Some pj \<Rightarrow>
                  if waiting pj then m3
                  else once cid
                         [(''ready'', UpdateReady cid),
                          (''disconnect'', UpdateDisconnect cid),
                          (''error'', UpdateError cid)]
                         (m3\<lparr>pendingClubs := (pendingClubs m3)(cid \<mapsto> pj\<lparr>waiting := True\<rparr>)\<rparr>))"

text \<open>
  The bodies of the registered closures; \<open>err\<close> is the argument of an \<open>error\<close> event.
\<close>

definition settle_pending :: "string \<Rightarrow> (nat \<Rightarrow> call) \<Rightarrow> manager \<Rightarrow> manager" where
  "settle_pending cid outcome_of m =
     (case pendingClubs m cid of
        None \<Rightarrow> m
      | Some pj \<Rightarrow> (call (outcome_of (promise pj)) m)\<lparr>pendingClubs := (pendingClubs m)(cid := None)\<rparr>)"

fun run_handler :: "handler \<Rightarrow> js_error \<Rightarrow> manager \<Rightarrow> manager" where
  "run_handler (JoinDisconnect cid p) err m =
     call (Rejected p (JsError [L ''Disconnected''] None))
       (removeListener cid (''error'', JoinError cid p)
          (removeListener cid (''ready'', JoinReady cid p) m))"
| "run_handler (JoinReady cid p) err m =
     call (Resolved p cid)
       (removeListener cid (''error'', JoinError cid p)
          (removeListener cid (''disconnect'', JoinDisconnect cid p) m))"
| "run_handler (JoinError cid p) err m =
     call (Rejected p err)
       (call (Disconnect cid)
          (removeListener cid (''ready'', JoinReady cid p)
             (removeListener cid (''disconnect'', JoinDisconnect cid p) m)))"
| "run_handler (UpdateDisconnect cid) err m =
     settle_pending cid (\<lambda>p. Rejected p (JsError [L ''Disconnected''] None))
       (removeListener cid (''error'', UpdateError cid)
          (removeListener cid (''ready'', UpdateReady cid) m))"
| "run_handler (UpdateReady cid) err m =
     settle_pending cid (\<lambda>p. Resolved p cid)
       (removeListener cid (''error'', UpdateError cid)
          (removeListener cid (''disconnect'', UpdateDisconnect cid) m))"
| "run_handler (UpdateError cid) err m =
     settle_pending cid (\<lambda>p. Rejected p err)
       (if connections m cid = None then m
        else call (Disconnect cid)
               (removeListener cid (''ready'', UpdateReady cid)
                  (removeListener cid (''disconnect'', UpdateDisconnect cid) m)))"

section \<open>Notions used to state the properties\<close>

text \<open>
  What a trace shows: the frames written to the socket, the promises resolved, the
  request timers cleared, the \<open>error\<close> events, the reconnects asked of the shard
  manager and the timers started.
\<close>

fun frames :: "effect list \<Rightarrow> (nat \<times> jsval) list" where
  "frames [] = []"
| "frames (WsSend opc data # es) = (opc, data) # frames es"
| "frames (e # es) = frames es"

fun resolutions :: "effect list \<Rightarrow> (string \<times> jsval) list" where
  "resolutions [] = []"
| "resolutions (Resolve k v # es) = (k, v) # resolutions es"
| "resolutions (e # es) = resolutions es"

fun cleared_timeouts :: "effect list \<Rightarrow> string list" where
  "cleared_timeouts [] = []"
| "cleared_timeouts (ClearRequestTimeout k # es) = k # cleared_timeouts es"
| "cleared_timeouts (e # es) = cleared_timeouts es"

fun is_error :: "effect \<Rightarrow> bool" where
  "is_error (Emit event args) = (event = ''error'')"
| "is_error e = False"

fun is_connect :: "effect \<Rightarrow> bool" where
  "is_connect ShardsConnect = True"
| "is_connect (SetTimeoutShardsConnect ms) = True"
| "is_connect e = False"

fun is_timer :: "effect \<Rightarrow> bool" where
  "is_timer (SetInterval ms) = True"
| "is_timer (SetRequestTimeout k ms) = True"
| "is_timer (SetTimeoutShardsConnect ms) = True"
| "is_timer e = False"

text \<open>The effects of settling the outstanding member requests, as \<open>reset\<close> does.\<close>

fun settled :: "(string \<times> member_request) list \<Rightarrow> effect list" where
  "settled [] = []"
| "settled (entry # entries) =
     ClearRequestTimeout (fst entry) # Resolve (fst entry) (JNum (received (snd entry)))
       # settled entries"

text \<open>
  A bucket with nothing waiting and room for \<open>k\<close> more executions outside the reserved
  ones: the next \<open>k\<close> tasks queued on it run at once.
\<close>

definition budget :: "nat \<Rightarrow> bucket \<Rightarrow> bool" where
  "budget k b = (queue b = [] \<and> used b + k \<le> tokenLimit b - reservedTokens b)"

text \<open>What the trace gets when a frame is written: the frame, then its \<open>debug\<close> dump.\<close>

definition dump :: "nat \<Rightarrow> jsval \<Rightarrow> jsval" where
  "dump opc data =
     JObj [(''op'', JNum (int opc)),
           (''d'', (if truthy (get_prop ''token'' data) then delete_prop ''token'' data else data))]"

text \<open>The shard after \<open>sendWS\<close> when the frame goes out at once.\<close>

definition sent :: "nat \<Rightarrow> jsval \<Rightarrow> shard \<Rightarrow> shard" where
  "sent opc data sh =
     sh\<lparr>tasks := (tasks sh)(nextTask sh \<mapsto>
            \<lparr>task_op = opc,
             task_data = (if truthy (get_prop ''token'' data) then delete_prop ''token'' data
                          else data),
             waitFor = 1, fired = 1\<rparr>),
        nextTask := Suc (nextTask sh),
        globalBucket := (globalBucket sh)\<lparr>used := Suc (used (globalBucket sh)), queue := []\<rparr>,
        trace := trace sh @ [WsSend opc data, Emit ''debug'' [V (dump opc data), the_id sh]]\<rparr>"

text \<open>The members a chunk contributes, and the non-zero \<open>s\<close> fields of a run of packets.\<close>

definition with_ids :: "jsval list \<Rightarrow> jsval list" where
  "with_ids ms = map (\<lambda>member. set_prop ''id'' (get_prop ''id'' (get_prop ''user'' member)) member) ms"

definition chunk_of :: "packet \<Rightarrow> jsval list" where
  "chunk_of p =
     (case pkt_d p of
        MembersChunk cid ms nonce idx cnt \<Rightarrow> with_ids ms
      | _ \<Rightarrow> [])"

text \<open>
  A dispatch that is a member chunk answering request \<open>k\<close> for a club in the cache of
  the shard's client; and whether a chunk is the last one of its answer.
\<close>

definition chunk_for :: "string \<Rightarrow> shard \<Rightarrow> packet \<Rightarrow> bool" where
  "chunk_for k sh p =
     (pkt_op p = EVENT \<and> pkt_t p = CLUB_MEMBERS_CHUNK
      \<and> (case pkt_d p of
            MembersChunk cid ms nonce idx cnt \<Rightarrow>
              nonce_key nonce = k \<and> cid \<in> set (clubs (the_client sh))
          | _ \<Rightarrow> False))"

definition last_chunk :: "packet \<Rightarrow> bool" where
  "last_chunk p =
     (case pkt_d p of
        MembersChunk cid ms nonce idx cnt \<Rightarrow> cnt - 1 \<le> idx
      | _ \<Rightarrow> False)"

definition partial_chunk :: "string \<Rightarrow> shard \<Rightarrow> packet \<Rightarrow> bool" where
  "partial_chunk k sh p = (chunk_for k sh p \<and> \<not> last_chunk p)"

text \<open>What handling a packet or a request leaves alone as far as the properties below go.\<close>

definition kept :: "shard \<Rightarrow> shard \<Rightarrow> bool" where
  "kept a b =
     (seq b = seq a \<and> sessionID b = sessionID a \<and> the_client b = the_client a
      \<and> resolutions (trace b) = resolutions (trace a)
      \<and> cleared_timeouts (trace b) = cleared_timeouts (trace a))"


text \<open>What the send path leaves alone, whatever the buckets hold.\<close>

definition same_session :: "shard \<Rightarrow> shard \<Rightarrow> bool" where
  "same_session a b =
     (seq b = seq a \<and> sessionID b = sessionID a \<and> status b = status a \<and> ws b = ws a
      \<and> lastHeartbeatAck b = lastHeartbeatAck a \<and> the_client b = the_client a
      \<and> the_modules b = the_modules a \<and> the_token b = the_token a \<and> shard_id b = shard_id a
      \<and> presence b = presence a \<and> requestMembersPromise b = requestMembersPromise a
      \<and> heartbeatInterval b = heartbeatInterval a \<and> connectTimeout b = connectTimeout a
      \<and> connectAttempts b = connectAttempts a \<and> reconnectInterval b = reconnectInterval a
      \<and> getAllUsersCount b = getAllUsersCount a \<and> getAllUsersQueue b = getAllUsersQueue a
      \<and> clubSyncQueue b = clubSyncQueue a \<and> unsyncedClubs b = unsyncedClubs a
      \<and> ready b = ready a \<and> nonces b = nonces a \<and> drawn b = drawn a \<and> now b = now a
      \<and> random b = random a \<and> lastHeartbeatSent b = lastHeartbeatSent a
      \<and> filter is_error (trace b) = filter is_error (trace a)
      \<and> filter is_connect (trace b) = filter is_connect (trace a)
      \<and> filter is_timer (trace b) = filter is_timer (trace a)
      \<and> resolutions (trace b) = resolutions (trace a)
      \<and> cleared_timeouts (trace b) = cleared_timeouts (trace a))"

section \<open>A concrete client and shard\<close>

definition client_X :: client where
  "client_X =
     \<lparr>client_options =
        \<lparr>autoreconnect = True, compress = False, largeThreshold = 250,
         clubSubscriptions = True, intents = Some 515, maxShards = 1, maxResumeAttempts = 10,
         requestTimeout = 15000, disableEvents = (\<lambda>name. False)\<rparr>,
      client_token = Some ''Bot X'',
      client_presence = JObj [(''game'', JNull), (''status'', JStr ''offline'')],
      clubs = [''A''], unavailableClubs = [], rawWS_listeners = False\<rparr>"

definition modules_X :: modules where
  "modules_X =
     \<lparr>ZlibSync = False, GATEWAY_VERSION = 6, Intents_clubMembers = 2, platform = ''linux''\<rparr>"

text \<open>Shard 0 of \<open>client_X\<close> as the constructor leaves it, through \<open>hardReset\<close>.\<close>

definition shard_0 :: shard where
  "shard_0 =
     \<lparr>shard_id = 0, the_client = client_X, the_modules = modules_X, ws = None,
      status = Disconnected, seq = 0, sessionID = None, the_token = Some ''Bot X'',
      lastHeartbeatAck = True, lastHeartbeatReceived = None, lastHeartbeatSent = None,
      latency = None, heartbeatInterval = None, connectTimeout = False,
      clubCreateTimeout = False, connecting = False, ready = False, preReady = False,
      connectAttempts = 0, reconnectInterval = 1000, requestMembersPromise = [],
      getAllUsersCount = [], getAllUsersQueue = [], getAllUsersLength = 1, clubSyncQueue = [],
      clubSyncQueueLength = 1, unsyncedClubs = 0, globalBucket = new_Bucket 120 60000 5,
      presenceUpdateBucket = new_Bucket 5 60000 0,
      presence = JObj [(''game'', JNull), (''status'', JStr ''offline'')],
      helseliaServerTrace = JUndef, tasks = Map.empty, nextTask = 0, now = 0, random = 0,
      nonces = (\<lambda>n. replicate (Suc n) CHR ''n''), drawn = 0, trace = []\<rparr>"

text \<open>The same shard with its socket open, and with a session to resume.\<close>

definition shard_open :: shard where
  "shard_open = onWSOpen (shard_0\<lparr>ws := Some OPEN, connecting := True, connectAttempts := 1\<rparr>)"

definition shard_abc :: shard where
  "shard_abc =
     onWSOpen (shard_0\<lparr>ws := Some OPEN, connecting := True, connectAttempts := 1,
                       sessionID := Some ''abc'', seq := 42\<rparr>)"

text \<open>
  Packets: HELLO, the RESUMED dispatch, INVALID_SESSION. A packet that is no dispatch has
  no event name; \<open>pkt_t\<close> is read for dispatches only.
\<close>

definition hello_packet :: packet where
  "hello_packet =
     \<lparr>pkt_op = HELLO, pkt_s = None, pkt_t = Unlisted ''null'', pkt_d = Hello 41250 (JArr [])\<rparr>"

definition resumed_packet :: packet where
  "resumed_packet =
     \<lparr>pkt_op = EVENT, pkt_s = Some 43, pkt_t = RESUMED, pkt_d = Data (JObj [])\<rparr>"



text \<open>
  A request for the members of club \<open>A\<close>, answered in two chunks of one member each; and
  a request for the members of club \<open>B\<close>, which is not in the cache, with its answer.
\<close>

definition member_u1 :: jsval where
  "member_u1 = JObj [(''user'', JObj [(''id'', JStr ''u1'')])]"

definition member_u2 :: jsval where
  "member_u2 = JObj [(''user'', JObj [(''id'', JStr ''u2'')])]"

definition chunk_1of2 :: packet where
  "chunk_1of2 =
     \<lparr>pkt_op = EVENT, pkt_s = Some 1, pkt_t = CLUB_MEMBERS_CHUNK,
      pkt_d = MembersChunk ''A'' [member_u1] (Some ''n'') 0 2\<rparr>"

definition chunk_2of2 :: packet where
  "chunk_2of2 =
     \<lparr>pkt_op = EVENT, pkt_s = Some 2, pkt_t = CLUB_MEMBERS_CHUNK,
      pkt_d = MembersChunk ''A'' [member_u2] (Some ''n'') 1 2\<rparr>"


definition requested_A :: shard where
  "requested_A = shard_of (requestClubMembers (JStr ''A'') None shard_open)"


text \<open>
  A run on one socket: HELLO with a session to resume, RESUMED, one period of the
  heartbeat timer; then, with no acknowledgement in between, a second HELLO.
\<close>

definition unacknowledged :: shard where
  "unacknowledged =
     heartbeat_timer (onWSMessage resumed_packet (onWSMessage hello_packet shard_abc))"

definition second_hello :: shard where
  "second_hello = onWSMessage hello_packet unacknowledged"

text \<open>A manager that has seen nothing yet, and a server update for club \<open>g2\<close>.\<close>

definition manager_0 :: manager where
  "manager_0 =
     \<lparr>connections = Map.empty, pendingClubs = Map.empty, timers = Map.empty, nextPromise = 0,
      nextTimer = 0, calls = []\<rparr>"

definition update_g2 :: server_update where
  "update_g2 =
     \<lparr>club_id = ''g2'', endpoint = JStr ''voice.example'', voice_token = JStr ''t'',
      session_id = JStr ''abc'', user_id = JStr ''u1'', update_shard = JNum 0\<rparr>"

section \<open>Lemmas on traces and on the send path\<close>

lemmas opcodes =
  EVENT_def HEARTBEAT_def IDENTIFY_def STATUS_UPDATE_def VOICE_STATE_UPDATE_def RESUME_def
  RECONNECT_def GET_CLUB_MEMBERS_def INVALID_SESSION_def HELLO_def HEARTBEAT_ACK_def
  SYNC_CLUB_def

lemma frames_append: "frames (xs @ ys) = frames xs @ frames ys"
  by (induction xs rule: frames.induct) simp_all

lemma resolutions_append: "resolutions (xs @ ys) = resolutions xs @ resolutions ys"
  by (induction xs rule: resolutions.induct) simp_all

lemma cleared_timeouts_append:
  "cleared_timeouts (xs @ ys) = cleared_timeouts xs @ cleared_timeouts ys"
  by (induction xs rule: cleared_timeouts.induct) simp_all

lemma cleared_timeouts_settled: "cleared_timeouts (settled es) = map fst es"
  by (induction es) simp_all

lemma frames_settled: "frames (settled es) = []"
  by (induction es) simp_all

lemma filter_settled:
  "filter is_error (settled es) = []" "filter is_connect (settled es) = []"
  "filter is_timer (settled es) = []"
  by (induction es) simp_all

lemma resolutions_settled:
  "resolutions (settled es) = map (\<lambda>entry. (fst entry, JNum (received (snd entry)))) es"
  by (induction es) simp_all

lemma sendWS_now:
  assumes "ws sh = Some OPEN" and "budget (Suc k) (globalBucket sh)" and "opc \<noteq> STATUS_UPDATE"
  shows "sendWS opc data priority sh = sent opc data sh"
proof -
  have b: "queue (globalBucket sh) = []"
    "used (globalBucket sh) < tokenLimit (globalBucket sh) - reservedTokens (globalBucket sh)"
    "used (globalBucket sh) < tokenLimit (globalBucket sh)"
    using assms(2) by (auto simp: budget_def)
  show ?thesis
    using assms(1,3) b
    by (simp add: sendWS_def globalBucket_queue_def bucket_queue_def enqueue_def
        run_task_def effect_def emit_def the_id_def sent_def dump_def Let_def)
qed

lemma budget_sent: "budget (Suc k) (globalBucket sh) \<Longrightarrow> budget k (globalBucket (sent opc data sh))"
  by (simp add: budget_def sent_def)

lemma same_session_refl: "same_session a a"
  by (simp add: same_session_def)

lemma same_session_trans: "same_session a b \<Longrightarrow> same_session b c \<Longrightarrow> same_session a c"
  by (simp add: same_session_def)

lemma run_task_same: "same_session sh (run_task n sh)"
  by (simp add: run_task_def same_session_def effect_def emit_def Let_def resolutions_append
      cleared_timeouts_append split: option.splits)

lemma run_tasks_same: "same_session sh (run_tasks ns sh)"
proof (induction ns arbitrary: sh)
  case Nil
  show ?case by (simp add: same_session_refl)
next
  case (Cons n ns)
  show ?case
    using same_session_trans [OF run_task_same Cons.IH] by simp
qed

lemma globalBucket_queue_same: "same_session sh (globalBucket_queue n priority sh)"
proof -
  obtain run b where rb: "bucket_queue n priority (globalBucket sh) = (run, b)"
    by (cases "bucket_queue n priority (globalBucket sh)")
  have "same_session sh (sh\<lparr>globalBucket := b\<rparr>)"
    by (simp add: same_session_def)
  from same_session_trans [OF this run_tasks_same]
  show ?thesis by (simp add: globalBucket_queue_def rb)
qed

lemma presenceUpdateBucket_queue_same: "same_session sh (presenceUpdateBucket_queue n priority sh)"
proof -
  obtain run b where rb: "bucket_queue n priority (presenceUpdateBucket sh) = (run, b)"
    by (cases "bucket_queue n priority (presenceUpdateBucket sh)")
  have "same_session sh (sh\<lparr>presenceUpdateBucket := b\<rparr>)"
    by (simp add: same_session_def)
  from same_session_trans [OF this run_tasks_same]
  show ?thesis by (simp add: presenceUpdateBucket_queue_def rb)
qed

lemma sendWS_same: "same_session sh (sendWS opc data priority sh)"
proof (cases "ws sh = Some OPEN")
  case False
  then show ?thesis by (simp add: sendWS_def same_session_refl)
next
  case True
  define tk where "tk = \<lparr>task_op = opc, task_data = data,
                  waitFor = (if opc = STATUS_UPDATE then 2 else 1), fired = 0\<rparr>"
  define sh1 where "sh1 = sh\<lparr>tasks := (tasks sh)(nextTask sh \<mapsto> tk), nextTask := Suc (nextTask sh)\<rparr>"
  define sh2 where "sh2 = (if opc = STATUS_UPDATE then presenceUpdateBucket_queue (nextTask sh) priority sh1 else sh1)"
  have 1: "same_session sh sh1" by (simp add: sh1_def same_session_def)
  have 2: "same_session sh1 sh2"
    by (simp add: sh2_def same_session_refl presenceUpdateBucket_queue_same)
  have 3: "same_session sh2 (globalBucket_queue (nextTask sh) priority sh2)"
    by (rule globalBucket_queue_same)
  have "sendWS opc data priority sh = globalBucket_queue (nextTask sh) priority sh2"
    using True by (simp add: sendWS_def Let_def sh2_def sh1_def tk_def)
  with same_session_trans [OF same_session_trans [OF 1 2] 3] show ?thesis by simp
qed

section \<open>Properties of objects\<close>

lemma get_prop_delete_prop: "get_prop k (delete_prop k v) = JUndef"
proof (cases v)
  case (JObj kvs)
  have "map_of (filter (\<lambda>kv. fst kv \<noteq> k) kvs) k = None"
    by (auto simp: map_of_eq_None_iff)
  with JObj show ?thesis by simp
qed simp_all

lemma has_prop_delete_prop: "\<not> has_prop k (delete_prop k v)"
  by (cases v) auto

lemma truthy_has_prop: "truthy (get_prop k v) \<Longrightarrow> has_prop k v"
proof (cases v)
  case (JObj kvs)
  assume "truthy (get_prop k v)"
  with JObj have "map_of kvs k \<noteq> None" by (auto split: option.splits)
  then have "k \<in> fst ` set kvs" by (simp add: map_of_eq_None_iff)
  with JObj show ?thesis by simp
qed simp_all

lemma get_prop_set_prop_other: "k \<noteq> k' \<Longrightarrow> get_prop k (set_prop k' x v) = get_prop k v"
proof (cases v)
  case (JObj kvs)
  assume neq: "k \<noteq> k'"
  have "map_of (map (\<lambda>kv. if fst kv = k' then (k', x) else kv) kvs) k = map_of kvs k"
    using neq by (induction kvs) auto
  with JObj neq show ?thesis by (auto simp: map_add_def split: option.splits)
qed simp_all

lemma token_of_identify_payload:
  "get_prop ''token'' (identify_payload sh) = str_or_null (the_token sh)"
  by (simp add: identify_payload_def Let_def get_prop_set_prop_other)

lemma truthy_str_or_null: "truthy (str_or_null x) = held x"
  by (cases x) simp_all

section \<open>The token in frames and in their dumps\<close>

lemma run_task_fires:
  assumes "tasks sh n = Some tk" and "waitFor tk \<le> Suc (fired tk)" and "ws sh = Some OPEN"
  shows "trace (run_task n sh) = trace sh @
           [WsSend (task_op tk) (task_data tk),
            Emit ''debug'' [V (dump (task_op tk) (task_data tk)), the_id sh]]"
  using assms
  by (simp add: run_task_def effect_def emit_def the_id_def dump_def Let_def)

lemma trace_sent:
  "trace (sent opc data sh) = trace sh @ [WsSend opc data, Emit ''debug'' [V (dump opc data), the_id sh]]"
  by (simp add: sent_def)

lemma token_of_resume_payload:
  "get_prop ''token'' (resume_payload sh) = str_or_null (the_token sh)"
  by (simp add: resume_payload_def)

lemma identify_now:
  assumes "ws sh = Some OPEN" and "budget (Suc k) (globalBucket sh)"
    and "ZlibSync (the_modules sh) \<or> \<not> compress (client_options (the_client sh))"
  shows "identify sh = sent IDENTIFY (identify_payload sh) sh"
  using assms sendWS_now [of sh k IDENTIFY]
  by (auto simp: identify_def opcodes)

lemma resume_now:
  assumes "ws sh = Some OPEN" and "budget (Suc k) (globalBucket sh)"
  shows "resume sh = sent RESUME (resume_payload sh) (sh\<lparr>status := Resuming\<rparr>)"
  using assms sendWS_now [of "sh\<lparr>status := Resuming\<rparr>" k RESUME]
  by (simp add: resume_def opcodes resume_payload_def)

text \<open>
  C9. A payload whose \<open>token\<close> is truthy (a non-empty string, as \<open>initializeWS\<close> requires
  of the shard's token) goes out on the socket with the token, and the \<open>debug\<close> event
  emitted for that frame carries the payload without the \<open>token\<close> property. This holds
  whenever the closure of \<open>sendWS\<close> fires, so also for a frame a bucket held back, and
  in particular for the payloads of RESUME and IDENTIFY.
\<close>

theorem C9_token_sent_not_traced:
  "(truthy (get_prop ''token'' data) \<longrightarrow>
      has_prop ''token'' data
      \<and> \<not> has_prop ''token'' (delete_prop ''token'' data)
      \<and> (tasks sh n = Some tk \<and> task_data tk = data \<and> waitFor tk \<le> Suc (fired tk)
            \<and> ws sh = Some OPEN \<longrightarrow>
          trace (run_task n sh) = trace sh @
            [WsSend (task_op tk) data,
             Emit ''debug'' [V (JObj [(''op'', JNum (int (task_op tk))),
                                     (''d'', delete_prop ''token'' data)]), the_id sh]])
      \<and> (ws sh = Some OPEN \<and> budget 1 (globalBucket sh) \<and> opc \<noteq> STATUS_UPDATE \<longrightarrow>
          trace (sendWS opc data priority sh) = trace sh @
            [WsSend opc data,
             Emit ''debug'' [V (JObj [(''op'', JNum (int opc)),
                                     (''d'', delete_prop ''token'' data)]), the_id sh]]))
   \<and> (held (the_token sh) \<and> ws sh = Some OPEN \<and> budget 1 (globalBucket sh) \<longrightarrow>
        trace (resume sh) = trace sh @
          [WsSend RESUME (resume_payload sh),
           Emit ''debug'' [V (JObj [(''op'', JNum (int RESUME)),
                                   (''d'', delete_prop ''token'' (resume_payload sh))]), the_id sh]]
        \<and> has_prop ''token'' (resume_payload sh)
        \<and> ((ZlibSync (the_modules sh) \<or> \<not> compress (client_options (the_client sh))) \<longrightarrow>
            trace (identify sh) = trace sh @
              [WsSend IDENTIFY (identify_payload sh),
               Emit ''debug'' [V (JObj [(''op'', JNum (int IDENTIFY)),
                                       (''d'', delete_prop ''token'' (identify_payload sh))]),
                              the_id sh]]
            \<and> has_prop ''token'' (identify_payload sh)))"
proof -
  have d: "dump c x = JObj [(''op'', JNum (int c)), (''d'', delete_prop ''token'' x)]"
    if "truthy (get_prop ''token'' x)" for c x
    using that by (simp add: dump_def)
  have 1: "trace (run_task n sh) = trace sh @
            [WsSend (task_op tk) data,
             Emit ''debug'' [V (JObj [(''op'', JNum (int (task_op tk))),
                                     (''d'', delete_prop ''token'' data)]), the_id sh]]"
    if "truthy (get_prop ''token'' data)" "tasks sh n = Some tk" "task_data tk = data"
      "waitFor tk \<le> Suc (fired tk)" "ws sh = Some OPEN"
    using run_task_fires [of sh n tk] d [of data] that by simp
  have 2: "trace (sendWS opc data priority sh) = trace sh @
            [WsSend opc data,
             Emit ''debug'' [V (JObj [(''op'', JNum (int opc)),
                                     (''d'', delete_prop ''token'' data)]), the_id sh]]"
    if "truthy (get_prop ''token'' data)" "ws sh = Some OPEN" "budget 1 (globalBucket sh)"
      "opc \<noteq> STATUS_UPDATE"
    using sendWS_now [of sh 0 opc data priority] d [of data] that by (simp add: trace_sent)
  have 3: "trace (resume sh) = trace sh @
          [WsSend RESUME (resume_payload sh),
           Emit ''debug'' [V (JObj [(''op'', JNum (int RESUME)),
                                   (''d'', delete_prop ''token'' (resume_payload sh))]), the_id sh]]
        \<and> has_prop ''token'' (resume_payload sh)"
    if "held (the_token sh)" "ws sh = Some OPEN" "budget 1 (globalBucket sh)"
  proof -
    have t: "truthy (get_prop ''token'' (resume_payload sh))"
      using that(1) by (simp add: token_of_resume_payload truthy_str_or_null)
    from resume_now [of sh 0] that d [OF t] truthy_has_prop [OF t]
    show ?thesis by (simp add: trace_sent the_id_def)
  qed
  have 4: "trace (identify sh) = trace sh @
              [WsSend IDENTIFY (identify_payload sh),
               Emit ''debug'' [V (JObj [(''op'', JNum (int IDENTIFY)),
                                       (''d'', delete_prop ''token'' (identify_payload sh))]),
                              the_id sh]]
            \<and> has_prop ''token'' (identify_payload sh)"
    if "held (the_token sh)" "ws sh = Some OPEN" "budget 1 (globalBucket sh)"
      "ZlibSync (the_modules sh) \<or> \<not> compress (client_options (the_client sh))"
  proof -
    have t: "truthy (get_prop ''token'' (identify_payload sh))"
      using that(1) by (simp add: token_of_identify_payload truthy_str_or_null)
    from identify_now [of sh 0] that d [OF t] truthy_has_prop [OF t]
    show ?thesis by (simp add: trace_sent)
  qed
  from 1 2 3 4 truthy_has_prop [of "''token''" data] has_prop_delete_prop [of "''token''" data]
  show ?thesis by blast
qed

theorem C9_token_sent_not_traced_witness:
  "truthy (get_prop ''token'' (resume_payload shard_abc))
   \<and> held (the_token shard_abc) \<and> ws shard_abc = Some OPEN \<and> budget 1 (globalBucket shard_abc)
   \<and> RESUME \<noteq> STATUS_UPDATE
   \<and> resume_payload shard_abc =
       JObj [(''token'', JStr ''Bot X''), (''session_id'', JStr ''abc''), (''seq'', JNum 42)]
   \<and> trace (sendWS RESUME (resume_payload shard_abc) False shard_abc) =
       trace shard_abc @
         [WsSend RESUME (resume_payload shard_abc),
          Emit ''debug'' [V (JObj [(''op'', JNum (int RESUME)),
                                  (''d'', JObj [(''session_id'', JStr ''abc''), (''seq'', JNum 42)])]),
                         the_id shard_abc]]
   \<and> trace (identify shard_abc) =
       trace shard_abc @
         [WsSend IDENTIFY (identify_payload shard_abc),
          Emit ''debug'' [V (JObj [(''op'', JNum (int IDENTIFY)),
                                  (''d'', delete_prop ''token'' (identify_payload shard_abc))]),
                         the_id shard_abc]]"
proof -
  have f: "the_token shard_abc = Some ''Bot X''" "ws shard_abc = Some OPEN"
    "sessionID shard_abc = Some ''abc''" "seq shard_abc = 42"
    "globalBucket shard_abc = new_Bucket 120 60000 5"
    "the_modules shard_abc = modules_X" "the_client shard_abc = client_X"
    by (simp_all add: shard_abc_def onWSOpen_def emit_def effect_def shard_0_def Let_def)
  have b: "budget 1 (globalBucket shard_abc)"
    by (simp add: f budget_def new_Bucket_def)
  have p: "resume_payload shard_abc =
       JObj [(''token'', JStr ''Bot X''), (''session_id'', JStr ''abc''), (''seq'', JNum 42)]"
    by (simp add: resume_payload_def f)
  have z: "ZlibSync (the_modules shard_abc) \<or> \<not> compress (client_options (the_client shard_abc))"
    by (simp add: f client_X_def)
  have o: "RESUME \<noteq> STATUS_UPDATE" by (simp add: opcodes)
  have t: "truthy (get_prop ''token'' (resume_payload shard_abc))" by (simp add: p)
  have h: "held (the_token shard_abc)" by (simp add: f)
  from C9_token_sent_not_traced
    [of "resume_payload shard_abc" shard_abc 0 undefined RESUME False] t h f(2) b z o
  have "trace (sendWS RESUME (resume_payload shard_abc) False shard_abc) =
       trace shard_abc @
         [WsSend RESUME (resume_payload shard_abc),
          Emit ''debug'' [V (JObj [(''op'', JNum (int RESUME)),
                                  (''d'', delete_prop ''token'' (resume_payload shard_abc))]),
                         the_id shard_abc]]"
    and "trace (identify shard_abc) =
       trace shard_abc @
         [WsSend IDENTIFY (identify_payload shard_abc),
          Emit ''debug'' [V (JObj [(''op'', JNum (int IDENTIFY)),
                                  (''d'', delete_prop ''token'' (identify_payload shard_abc))]),
                         the_id shard_abc]]"
    by blast+
  moreover have "delete_prop ''token'' (resume_payload shard_abc)
      = JObj [(''session_id'', JStr ''abc''), (''seq'', JNum 42)]"
    by (simp add: p)
  ultimately show ?thesis using t h f(2) b o p by simp
qed

section \<open>Pending voice joins\<close>





section \<open>A server update nobody waits for\<close>

text \<open>
  C10. A \<open>voiceServerUpdate\<close> for a club that has neither a connection nor a pending join
  does nothing: the manager is returned as it was, so no connection is constructed, no
  \<open>connect\<close> is called and no listener is attached.
\<close>

theorem C10_voiceServerUpdate_noop:
  assumes "connections m (club_id data) = None" and "pendingClubs m (club_id data) = None"
  shows "voiceServerUpdate data m = m"
  using assms by (simp add: voiceServerUpdate_def)

theorem C10_voiceServerUpdate_noop_witness:
  "connections (snd (join ''g1'' (JStr ''c1'') JUndef manager_0)) (club_id update_g2) = None
   \<and> pendingClubs (snd (join ''g1'' (JStr ''c1'') JUndef manager_0)) (club_id update_g2) = None
   \<and> voiceServerUpdate update_g2 (snd (join ''g1'' (JStr ''c1'') JUndef manager_0))
       = snd (join ''g1'' (JStr ''c1'') JUndef manager_0)"
proof -
  have 1: "connections (snd (join ''g1'' (JStr ''c1'') JUndef manager_0)) (club_id update_g2) = None"
    by (simp add: join_def join_pending_def call_def manager_0_def update_g2_def Let_def)
  have 2: "pendingClubs (snd (join ''g1'' (JStr ''c1'') JUndef manager_0)) (club_id update_g2) = None"
    by (simp add: join_def join_pending_def call_def manager_0_def update_g2_def Let_def)
  from 1 2 C10_voiceServerUpdate_noop [OF 1 2] show ?thesis by simp
qed

section \<open>Disconnecting\<close>

lemma settle_requests_eq: "settle_requests es sh = sh\<lparr>trace := trace sh @ settled es\<rparr>"
  by (induction es arbitrary: sh) (simp_all add: effect_def)

lemma trace_reset:
  "trace (reset sh) = trace sh @ settled (requestMembersPromise sh)
     @ (if connectTimeout sh then [ClearConnectTimeout] else [])"
  by (simp add: reset_def settle_requests_eq effect_def Let_def)

lemma reset_fields:
  "ws (reset sh) = ws sh" "sessionID (reset sh) = sessionID sh" "seq (reset sh) = seq sh"
  "status (reset sh) = Disconnected" "lastHeartbeatAck (reset sh)"
  "requestMembersPromise (reset sh) = []" "connectTimeout (reset sh) = False"
  "heartbeatInterval (reset sh) = heartbeatInterval sh" "the_client (reset sh) = the_client sh"
  "connectAttempts (reset sh) = connectAttempts sh" "shard_id (reset sh) = shard_id sh"
  "reconnectInterval (reset sh) = reconnectInterval sh" "random (reset sh) = random sh"
  "the_modules (reset sh) = the_modules sh" "the_token (reset sh) = the_token sh"
  by (simp_all add: reset_def settle_requests_eq effect_def Let_def)

lemma trace_hardReset:
  "trace (hardReset sh) = trace sh @ settled (requestMembersPromise sh)
     @ (if connectTimeout sh then [ClearConnectTimeout] else [])"
  by (simp add: hardReset_def trace_reset Let_def)

lemma hardReset_fields:
  "ws (hardReset sh) = None" "sessionID (hardReset sh) = None" "seq (hardReset sh) = 0"
  "status (hardReset sh) = Disconnected" "lastHeartbeatAck (hardReset sh)"
  "requestMembersPromise (hardReset sh) = []" "heartbeatInterval (hardReset sh) = None"
  "connectAttempts (hardReset sh) = 0" "reconnectInterval (hardReset sh) = 1000"
  by (simp_all add: hardReset_def reset_fields Let_def)

text \<open>What each block of \<open>disconnect\<close> adds to the trace.\<close>

lemma trace_stop_heartbeat:
  "trace (stop_heartbeat sh) = trace sh @ (if heartbeatInterval sh \<noteq> None then [ClearInterval] else [])"
  by (simp add: stop_heartbeat_def effect_def)

lemma trace_close_socket:
  "trace (close_socket rc rs sh) = trace sh @
     (if rs \<noteq> CLOSED
      then [WsRemoveCloseListener,
            if rc \<noteq> NoReconnect \<and> held (sessionID sh)
            then (if rs = OPEN then WsClose 4901 ''Reconnect: Kiera'' else WsTerminate)
            else WsClose 1000 ''Normal: Kiera'']
      else [])"
  by (simp add: close_socket_def effect_def)

lemma trace_emit_error:
  "trace (emit_error error sh) = trace sh @
     (case error of Some err \<Rightarrow> [Emit ''error'' [E err, the_id sh]] | None \<Rightarrow> [])"
  by (simp add: emit_error_def emit_def effect_def split: option.splits)

lemma trace_invalidate_session:
  "frames (trace (invalidate_session sh)) = frames (trace sh)"
  "resolutions (trace (invalidate_session sh)) = resolutions (trace sh)"
  "filter is_error (trace (invalidate_session sh)) = filter is_error (trace sh)"
  "filter is_connect (trace (invalidate_session sh)) = filter is_connect (trace sh)"
  "cleared_timeouts (trace (invalidate_session sh)) = cleared_timeouts (trace sh)"
  by (simp_all add: invalidate_session_def emit_def effect_def frames_append resolutions_append
      cleared_timeouts_append)

lemma trace_reconnect_or_reset:
  "frames (trace (reconnect_or_reset rc sh)) = frames (trace sh)"
  "resolutions (trace (reconnect_or_reset rc sh)) = resolutions (trace sh)
     @ (if rc = NoReconnect \<and> \<not> (rc = Auto \<and> autoreconnect (client_options (the_client sh)))
        then map (\<lambda>entry. (fst entry, JNum (received (snd entry)))) (requestMembersPromise sh)
        else [])"
  "filter is_error (trace (reconnect_or_reset rc sh)) = filter is_error (trace sh)"
  "filter is_connect (trace (reconnect_or_reset rc sh)) = filter is_connect (trace sh)
     @ (if rc = Auto \<and> autoreconnect (client_options (the_client sh))
        then [if held (sessionID sh) then ShardsConnect
              else SetTimeoutShardsConnect (reconnectInterval sh)]
        else [])"
  "requestMembersPromise sh = []
   \<Longrightarrow> cleared_timeouts (trace (reconnect_or_reset rc sh)) = cleared_timeouts (trace sh)"
  by (simp_all add: reconnect_or_reset_def emit_def effect_def frames_append resolutions_append
      trace_hardReset frames_settled filter_settled resolutions_settled cleared_timeouts_append)

lemma before_reset:
  "requestMembersPromise (close_socket rc rs (stop_heartbeat sh)) = requestMembersPromise sh"
  "connectTimeout (close_socket rc rs (stop_heartbeat sh)) = connectTimeout sh"
  "sessionID (close_socket rc rs (stop_heartbeat sh)) = sessionID sh"
  "the_client (close_socket rc rs (stop_heartbeat sh)) = the_client sh"
  "connectAttempts (close_socket rc rs (stop_heartbeat sh)) = connectAttempts sh"
  "reconnectInterval (close_socket rc rs (stop_heartbeat sh)) = reconnectInterval sh"
  "shard_id (close_socket rc rs (stop_heartbeat sh)) = shard_id sh"
  "heartbeatInterval (close_socket rc rs (stop_heartbeat sh)) = None"
  "seq (close_socket rc rs (stop_heartbeat sh)) = seq sh"
  by (simp_all add: close_socket_def stop_heartbeat_def effect_def)

lemma after_reset:
  "requestMembersPromise (effect e (emit_error error sh)) = requestMembersPromise sh"
  "connectTimeout (effect e (emit_error error sh)) = connectTimeout sh"
  "sessionID (effect e (emit_error error sh)) = sessionID sh"
  "the_client (effect e (emit_error error sh)) = the_client sh"
  "connectAttempts (effect e (emit_error error sh)) = connectAttempts sh"
  "reconnectInterval (effect e (emit_error error sh)) = reconnectInterval sh"
  "shard_id (effect e (emit_error error sh)) = shard_id sh"
  "heartbeatInterval (effect e (emit_error error sh)) = heartbeatInterval sh"
  "ws (effect e (emit_error error sh)) = ws sh"
  "status (effect e (emit_error error sh)) = status sh"
  "lastHeartbeatAck (effect e (emit_error error sh)) = lastHeartbeatAck sh"
  "seq (effect e (emit_error error sh)) = seq sh"
  by (simp_all add: emit_error_def emit_def effect_def split: option.splits)

lemma invalidate_session_fields:
  "requestMembersPromise (invalidate_session sh) = requestMembersPromise sh"
  "connectTimeout (invalidate_session sh) = connectTimeout sh"
  "the_client (invalidate_session sh) = the_client sh"
  "reconnectInterval (invalidate_session sh) = reconnectInterval sh"
  "heartbeatInterval (invalidate_session sh) = heartbeatInterval sh"
  "ws (invalidate_session sh) = ws sh"
  "status (invalidate_session sh) = status sh"
  "lastHeartbeatAck (invalidate_session sh) = lastHeartbeatAck sh"
  "seq (invalidate_session sh) = seq sh"
  "sessionID (invalidate_session sh) =
     (if held (sessionID sh)
         \<and> maxResumeAttempts (client_options (the_client sh)) \<le> connectAttempts sh
      then None else sessionID sh)"
  by (simp_all add: invalidate_session_def emit_def effect_def)

lemma reconnect_or_reset_fields:
  "ws sh = None \<Longrightarrow> ws (reconnect_or_reset rc sh) = None"
  "status sh = Disconnected \<Longrightarrow> status (reconnect_or_reset rc sh) = Disconnected"
  "heartbeatInterval sh = None \<Longrightarrow> heartbeatInterval (reconnect_or_reset rc sh) = None"
  "lastHeartbeatAck sh \<Longrightarrow> lastHeartbeatAck (reconnect_or_reset rc sh)"
  "requestMembersPromise sh = [] \<Longrightarrow> requestMembersPromise (reconnect_or_reset rc sh) = []"
  "sessionID (reconnect_or_reset rc sh) = (if rc = NoReconnect then None else sessionID sh)"
  "seq (reconnect_or_reset rc sh) = (if rc = NoReconnect then 0 else seq sh)"
  by (simp_all add: reconnect_or_reset_def emit_def effect_def hardReset_fields)


lemma disconnect_held:
  assumes "ws sh = Some rs"
  shows "ws (disconnect rc error sh) = None"
    and "status (disconnect rc error sh) = Disconnected"
    and "heartbeatInterval (disconnect rc error sh) = None"
    and "lastHeartbeatAck (disconnect rc error sh)"
    and "requestMembersPromise (disconnect rc error sh) = []"
    and "sessionID (disconnect rc error sh) =
           (if rc = NoReconnect then None
            else if held (sessionID sh)
                    \<and> maxResumeAttempts (client_options (the_client sh)) \<le> connectAttempts sh
            then None else sessionID sh)"
    and "seq (disconnect rc error sh) = (if rc = NoReconnect then 0 else seq sh)"
    and "frames (trace (disconnect rc error sh)) = frames (trace sh)"
    and "resolutions (trace (disconnect rc error sh)) = resolutions (trace sh)
           @ map (\<lambda>entry. (fst entry, JNum (received (snd entry)))) (requestMembersPromise sh)"
    and "filter is_error (trace (disconnect rc error sh)) = filter is_error (trace sh)
           @ (case error of Some err \<Rightarrow> [Emit ''error'' [E err, the_id sh]] | None \<Rightarrow> [])"
    and "filter is_connect (trace (disconnect rc error sh)) = filter is_connect (trace sh)
           @ (if rc = Auto \<and> autoreconnect (client_options (the_client sh))
              then [if held (sessionID sh)
                       \<and> connectAttempts sh < maxResumeAttempts (client_options (the_client sh))
                    then ShardsConnect
                    else SetTimeoutShardsConnect (reconnectInterval sh)]
              else [])"
    and "cleared_timeouts (trace (disconnect rc error sh)) = cleared_timeouts (trace sh)
           @ map fst (requestMembersPromise sh)"
proof -
  define sh1 where "sh1 = close_socket rc rs (stop_heartbeat sh)"
  define sh2 where "sh2 = reset (sh1\<lparr>ws := None\<rparr>)"
  define sh3 where "sh3 = effect (SuperEmit ''disconnect'') (emit_error error sh2)"
  define sh4 where "sh4 = invalidate_session sh3"
  have d: "disconnect rc error sh = reconnect_or_reset rc sh4"
    using assms by (simp add: disconnect_def Let_def sh1_def sh2_def sh3_def sh4_def)
  have t1: "trace sh1 = trace sh @ (if heartbeatInterval sh \<noteq> None then [ClearInterval] else [])
     @ (if rs \<noteq> CLOSED
        then [WsRemoveCloseListener,
              if rc \<noteq> NoReconnect \<and> held (sessionID sh)
              then (if rs = OPEN then WsClose 4901 ''Reconnect: Kiera'' else WsTerminate)
              else WsClose 1000 ''Normal: Kiera'']
        else [])"
    by (simp add: sh1_def trace_close_socket trace_stop_heartbeat stop_heartbeat_def effect_def)
  have t2: "trace sh2 = trace sh1 @ settled (requestMembersPromise sh)
     @ (if connectTimeout sh then [ClearConnectTimeout] else [])"
    by (simp add: sh2_def trace_reset sh1_def before_reset)
  have f2: "ws sh2 = None" "status sh2 = Disconnected" "heartbeatInterval sh2 = None"
    "lastHeartbeatAck sh2" "requestMembersPromise sh2 = []" "sessionID sh2 = sessionID sh"
    "the_client sh2 = the_client sh" "connectAttempts sh2 = connectAttempts sh"
    "reconnectInterval sh2 = reconnectInterval sh" "shard_id sh2 = shard_id sh"
    "seq sh2 = seq sh"
    by (simp_all add: sh2_def reset_fields sh1_def before_reset)
  have t3: "trace sh3 = trace sh2
     @ (case error of Some err \<Rightarrow> [Emit ''error'' [E err, the_id sh]] | None \<Rightarrow> [])
     @ [SuperEmit ''disconnect'']"
    by (simp add: sh3_def effect_def trace_emit_error the_id_def f2 split: option.splits)
  have f3: "ws sh3 = None" "status sh3 = Disconnected" "heartbeatInterval sh3 = None"
    "lastHeartbeatAck sh3" "requestMembersPromise sh3 = []" "sessionID sh3 = sessionID sh"
    "the_client sh3 = the_client sh" "connectAttempts sh3 = connectAttempts sh"
    "reconnectInterval sh3 = reconnectInterval sh" "seq sh3 = seq sh"
    by (simp_all add: sh3_def after_reset f2)
  have f4: "ws sh4 = None" "status sh4 = Disconnected" "heartbeatInterval sh4 = None"
    "lastHeartbeatAck sh4" "requestMembersPromise sh4 = []"
    "the_client sh4 = the_client sh" "reconnectInterval sh4 = reconnectInterval sh"
    "seq sh4 = seq sh"
    "sessionID sh4 = (if held (sessionID sh)
                        \<and> maxResumeAttempts (client_options (the_client sh)) \<le> connectAttempts sh
                      then None else sessionID sh)"
    by (simp_all add: sh4_def invalidate_session_fields f3)
  show "ws (disconnect rc error sh) = None"
    and "status (disconnect rc error sh) = Disconnected"
    and "heartbeatInterval (disconnect rc error sh) = None"
    and "lastHeartbeatAck (disconnect rc error sh)"
    and "requestMembersPromise (disconnect rc error sh) = []"
    by (simp_all add: d reconnect_or_reset_fields f4)
  show "sessionID (disconnect rc error sh) =
           (if rc = NoReconnect then None
            else if held (sessionID sh)
                    \<and> maxResumeAttempts (client_options (the_client sh)) \<le> connectAttempts sh
            then None else sessionID sh)"
    by (simp add: d reconnect_or_reset_fields f4)
  show "seq (disconnect rc error sh) = (if rc = NoReconnect then 0 else seq sh)"
    by (simp add: d reconnect_or_reset_fields f4)
  show "frames (trace (disconnect rc error sh)) = frames (trace sh)"
    by (simp add: d trace_reconnect_or_reset sh4_def trace_invalidate_session t3 t2 t1
        frames_append frames_settled split: option.splits)
  show "resolutions (trace (disconnect rc error sh)) = resolutions (trace sh)
           @ map (\<lambda>entry. (fst entry, JNum (received (snd entry)))) (requestMembersPromise sh)"
    by (simp add: d trace_reconnect_or_reset f4 trace_invalidate_session [of sh3, folded sh4_def]
        t3 t2 t1 resolutions_append resolutions_settled split: option.splits)
  show "filter is_error (trace (disconnect rc error sh)) = filter is_error (trace sh)
           @ (case error of Some err \<Rightarrow> [Emit ''error'' [E err, the_id sh]] | None \<Rightarrow> [])"
    by (simp add: d trace_reconnect_or_reset sh4_def trace_invalidate_session t3 t2 t1
        filter_settled split: option.splits)
  show "filter is_connect (trace (disconnect rc error sh)) = filter is_connect (trace sh)
           @ (if rc = Auto \<and> autoreconnect (client_options (the_client sh))
              then [if held (sessionID sh)
                       \<and> connectAttempts sh < maxResumeAttempts (client_options (the_client sh))
                    then ShardsConnect
                    else SetTimeoutShardsConnect (reconnectInterval sh)]
              else [])"
  proof -
    have "filter is_connect (trace sh4) = filter is_connect (trace sh)"
      by (simp add: trace_invalidate_session [of sh3, folded sh4_def] t3 t2 t1 filter_settled
          split: option.splits)
    then show ?thesis
      by (auto simp: d trace_reconnect_or_reset f4)
  qed
  show "cleared_timeouts (trace (disconnect rc error sh)) = cleared_timeouts (trace sh)
           @ map fst (requestMembersPromise sh)"
    by (simp add: d trace_reconnect_or_reset f4 trace_invalidate_session [of sh3, folded sh4_def]
        t3 t2 t1 cleared_timeouts_append cleared_timeouts_settled split: option.splits)
qed

section \<open>The close code 4004\<close>




lemma shard_open_fields:
  "ws shard_open = Some OPEN" "status shard_open = Handshaking" "sessionID shard_open = None"
  "the_token shard_open = Some ''Bot X''" "seq shard_open = 0" "lastHeartbeatAck shard_open"
  "globalBucket shard_open = new_Bucket 120 60000 5" "the_client shard_open = client_X"
  "the_modules shard_open = modules_X" "shard_id shard_open = 0"
  "trace shard_open = [Emit ''connect'' [V (JNum 0)]]" "requestMembersPromise shard_open = []"
  "heartbeatInterval shard_open = None" "connectTimeout shard_open = False"
  "presence shard_open = JObj [(''game'', JNull), (''status'', JStr ''offline'')]"
  "nonces shard_open 0 = ''n''" "drawn shard_open = 0" "ready shard_open = False"
  "getAllUsersCount shard_open = []" "connectAttempts shard_open = 1"
  by (simp_all add: shard_open_def onWSOpen_def emit_def effect_def the_id_def shard_0_def Let_def)



section \<open>The handshake\<close>

lemma sent_fields:
  "ws (sent opc data sh) = ws sh" "status (sent opc data sh) = status sh"
  "seq (sent opc data sh) = seq sh" "sessionID (sent opc data sh) = sessionID sh"
  "the_client (sent opc data sh) = the_client sh" "the_modules (sent opc data sh) = the_modules sh"
  "the_token (sent opc data sh) = the_token sh" "shard_id (sent opc data sh) = shard_id sh"
  "presence (sent opc data sh) = presence sh" "now (sent opc data sh) = now sh"
  "lastHeartbeatAck (sent opc data sh) = lastHeartbeatAck sh"
  "requestMembersPromise (sent opc data sh) = requestMembersPromise sh"
  "frames (trace (sent opc data sh)) = frames (trace sh) @ [(opc, data)]"
  "resolutions (trace (sent opc data sh)) = resolutions (trace sh)"
  "filter is_timer (trace (sent opc data sh)) = filter is_timer (trace sh)"
  "filter is_error (trace (sent opc data sh)) = filter is_error (trace sh)"
  by (simp_all add: sent_def frames_append resolutions_append)

lemma heartbeat_resuming: "status sh = Resuming \<Longrightarrow> heartbeat normal sh = sh"
  by (simp add: heartbeat_def)

lemma heartbeat_now:
  assumes "status sh \<noteq> Resuming" and "ws sh = Some OPEN" and "budget (Suc k) (globalBucket sh)"
    and "lastHeartbeatAck sh \<or> \<not> normal"
  shows "heartbeat normal sh =
           sent HEARTBEAT (JNum (seq sh))
             (sh\<lparr>lastHeartbeatAck := lastHeartbeatAck sh \<and> \<not> normal,
                 lastHeartbeatSent := Some (now sh)\<rparr>)"
proof (cases normal)
  case True
  with assms have a: "lastHeartbeatAck sh" by simp
  have "sendWS HEARTBEAT (JNum (seq sh)) True
          (sh\<lparr>lastHeartbeatAck := False, lastHeartbeatSent := Some (now sh)\<rparr>)
        = sent HEARTBEAT (JNum (seq sh))
            (sh\<lparr>lastHeartbeatAck := False, lastHeartbeatSent := Some (now sh)\<rparr>)"
    using assms(2,3) by (intro sendWS_now [of _ k]) (simp_all add: opcodes)
  with True a assms(1) show ?thesis by (simp add: heartbeat_def Let_def)
next
  case False
  have "sendWS HEARTBEAT (JNum (seq sh)) True (sh\<lparr>lastHeartbeatSent := Some (now sh)\<rparr>)
        = sent HEARTBEAT (JNum (seq sh)) (sh\<lparr>lastHeartbeatSent := Some (now sh)\<rparr>)"
    using assms(2,3) by (intro sendWS_now [of _ k]) (simp_all add: opcodes)
  with False assms(1) show ?thesis by (simp add: heartbeat_def Let_def)
qed

text \<open>The shard when the switch of \<open>onPacket\<close> is reached.\<close>

lemma arrival:
  "ws (sequence_update p (raw_event p sh)) = ws sh"
  "status (sequence_update p (raw_event p sh)) = status sh"
  "sessionID (sequence_update p (raw_event p sh)) = sessionID sh"
  "globalBucket (sequence_update p (raw_event p sh)) = globalBucket sh"
  "the_token (sequence_update p (raw_event p sh)) = the_token sh"
  "the_client (sequence_update p (raw_event p sh)) = the_client sh"
  "the_modules (sequence_update p (raw_event p sh)) = the_modules sh"
  "presence (sequence_update p (raw_event p sh)) = presence sh"
  "shard_id (sequence_update p (raw_event p sh)) = shard_id sh"
  "lastHeartbeatAck (sequence_update p (raw_event p sh)) = lastHeartbeatAck sh"
  "requestMembersPromise (sequence_update p (raw_event p sh)) = requestMembersPromise sh"
  "getAllUsersCount (sequence_update p (raw_event p sh)) = getAllUsersCount sh"
  "frames (trace (sequence_update p (raw_event p sh))) = frames (trace sh)"
  "resolutions (trace (sequence_update p (raw_event p sh))) = resolutions (trace sh)"
  "filter is_timer (trace (sequence_update p (raw_event p sh))) = filter is_timer (trace sh)"
  "filter is_error (trace (sequence_update p (raw_event p sh))) = filter is_error (trace sh)"
  "seq (sequence_update p (raw_event p sh)) = seq (sequence_update p sh)"
  by (simp_all add: sequence_update_def raw_event_def emit_def effect_def frames_append
      resolutions_append split: option.splits)



text \<open>The shard when HELLO has started the timer and cleared the connect timeout.\<close>

lemma prepared:
  "ws (clear_connectTimeout ((start_heartbeat ms sh)\<lparr>helseliaServerTrace := tr, connecting := False\<rparr>)) = ws sh"
  "status (clear_connectTimeout ((start_heartbeat ms sh)\<lparr>helseliaServerTrace := tr, connecting := False\<rparr>)) = status sh"
  "sessionID (clear_connectTimeout ((start_heartbeat ms sh)\<lparr>helseliaServerTrace := tr, connecting := False\<rparr>)) = sessionID sh"
  "seq (clear_connectTimeout ((start_heartbeat ms sh)\<lparr>helseliaServerTrace := tr, connecting := False\<rparr>)) = seq sh"
  "globalBucket (clear_connectTimeout ((start_heartbeat ms sh)\<lparr>helseliaServerTrace := tr, connecting := False\<rparr>)) = globalBucket sh"
  "the_token (clear_connectTimeout ((start_heartbeat ms sh)\<lparr>helseliaServerTrace := tr, connecting := False\<rparr>)) = the_token sh"
  "the_client (clear_connectTimeout ((start_heartbeat ms sh)\<lparr>helseliaServerTrace := tr, connecting := False\<rparr>)) = the_client sh"
  "the_modules (clear_connectTimeout ((start_heartbeat ms sh)\<lparr>helseliaServerTrace := tr, connecting := False\<rparr>)) = the_modules sh"
  "presence (clear_connectTimeout ((start_heartbeat ms sh)\<lparr>helseliaServerTrace := tr, connecting := False\<rparr>)) = presence sh"
  "shard_id (clear_connectTimeout ((start_heartbeat ms sh)\<lparr>helseliaServerTrace := tr, connecting := False\<rparr>)) = shard_id sh"
  "lastHeartbeatAck (clear_connectTimeout ((start_heartbeat ms sh)\<lparr>helseliaServerTrace := tr, connecting := False\<rparr>)) = lastHeartbeatAck sh"
  "frames (trace (clear_connectTimeout ((start_heartbeat ms sh)\<lparr>helseliaServerTrace := tr, connecting := False\<rparr>))) = frames (trace sh)"
  by (simp_all add: clear_connectTimeout_def start_heartbeat_def effect_def frames_append)

lemma hello_resume:
  assumes "pkt_d p = Hello ms tr" and "ws sh = Some OPEN" and "budget (Suc k) (globalBucket sh)"
    and "held (sessionID sh)"
  shows "\<exists>sh'. hello p sh = Returns sh' \<and> status sh' = Resuming \<and> ws sh' = Some OPEN
           \<and> lastHeartbeatAck sh' = lastHeartbeatAck sh \<and> sessionID sh' = sessionID sh
           \<and> seq sh' = seq sh \<and> budget k (globalBucket sh')
           \<and> the_client sh' = the_client sh
           \<and> frames (trace sh') = frames (trace sh) @ [(RESUME, resume_payload sh)]"
proof -
  define sh2 where "sh2 = clear_connectTimeout
      ((start_heartbeat ms sh)\<lparr>helseliaServerTrace := tr, connecting := False\<rparr>)"
  have f: "ws sh2 = Some OPEN" "budget (Suc k) (globalBucket sh2)" "held (sessionID sh2)"
    "sessionID sh2 = sessionID sh" "seq sh2 = seq sh" "the_token sh2 = the_token sh"
    "lastHeartbeatAck sh2 = lastHeartbeatAck sh" "frames (trace sh2) = frames (trace sh)"
    "the_client sh2 = the_client sh"
    using assms by (simp_all add: sh2_def prepared)
  have r: "resume sh2 = sent RESUME (resume_payload sh2) (sh2\<lparr>status := Resuming\<rparr>)"
    using f by (intro resume_now)
  have b: "budget k (globalBucket (sent RESUME (resume_payload sh2) (sh2\<lparr>status := Resuming\<rparr>)))"
    using f(2) by (intro budget_sent) simp
  have p: "resume_payload sh2 = resume_payload sh"
    by (simp add: resume_payload_def f)
  have h: "hello p sh = Returns (emit ''hello'' [V tr, the_id (resume sh2)] (resume sh2))"
    using assms(1) f(3) by (simp add: hello_def Let_def sh2_def)
  show ?thesis
    using b unfolding h r
    by (simp add: emit_def effect_def sent_fields f p frames_append)
qed


lemma onPacket_hello: "pkt_op p = HELLO \<Longrightarrow> onPacket p sh = hello p (sequence_update p (raw_event p sh))"
  by (simp add: onPacket_def op_switch_def opcodes)

lemma onWSMessage_hello_resume:
  assumes "pkt_op p = HELLO" and "pkt_d p = Hello ms tr" and "ws sh = Some OPEN"
    and "budget (Suc k) (globalBucket sh)" and "held (sessionID sh)"
  shows "status (onWSMessage p sh) = Resuming" and "ws (onWSMessage p sh) = Some OPEN"
    and "lastHeartbeatAck (onWSMessage p sh) = lastHeartbeatAck sh"
    and "sessionID (onWSMessage p sh) = sessionID sh"
    and "budget k (globalBucket (onWSMessage p sh))"
    and "frames (trace (onWSMessage p sh)) = frames (trace sh)
           @ [(RESUME, JObj [(''token'', str_or_null (the_token sh)),
                             (''session_id'', str_or_null (sessionID sh)),
                             (''seq'', JNum (seq (sequence_update p sh)))])]"
    and "the_client (onWSMessage p sh) = the_client sh"
proof -
  define X where "X = sequence_update p (raw_event p sh)"
  have x: "ws X = Some OPEN" "budget (Suc k) (globalBucket X)" "held (sessionID X)"
    using assms by (simp_all add: X_def arrival)
  from hello_resume [OF assms(2) x] obtain sh' where
    h: "hello p X = Returns sh'" "status sh' = Resuming" "ws sh' = Some OPEN"
      "lastHeartbeatAck sh' = lastHeartbeatAck X" "sessionID sh' = sessionID X"
      "budget k (globalBucket sh')"
      "frames (trace sh') = frames (trace X) @ [(RESUME, resume_payload X)]"
      "the_client sh' = the_client X"
    by blast
  have m: "onWSMessage p sh = sh'"
    using assms(1) h(1) by (simp add: onWSMessage_def onPacket_hello X_def)
  show "status (onWSMessage p sh) = Resuming" and "ws (onWSMessage p sh) = Some OPEN"
    and "lastHeartbeatAck (onWSMessage p sh) = lastHeartbeatAck sh"
    and "sessionID (onWSMessage p sh) = sessionID sh"
    and "budget k (globalBucket (onWSMessage p sh))"
    and "the_client (onWSMessage p sh) = the_client sh"
    using h by (simp_all add: m X_def arrival)
  show "frames (trace (onWSMessage p sh)) = frames (trace sh)
           @ [(RESUME, JObj [(''token'', str_or_null (the_token sh)),
                             (''session_id'', str_or_null (sessionID sh)),
                             (''seq'', JNum (seq (sequence_update p sh)))])]"
    using h(7) by (simp add: m X_def arrival resume_payload_def)
qed


lemma resumed_now:
  assumes "ws sh = Some OPEN" and "budget (Suc k) (globalBucket sh)"
  shows "status (resumed sh) = Ready" and "ws (resumed sh) = Some OPEN"
    and "lastHeartbeatAck (resumed sh) = lastHeartbeatAck sh"
    and "sessionID (resumed sh) = sessionID sh"
    and "budget k (globalBucket (resumed sh))"
    and "frames (trace (resumed sh)) = frames (trace sh) @ [(HEARTBEAT, JNum (seq sh))]"
    and "the_client (resumed sh) = the_client sh"
proof -
  define sh3 where "sh3 = effect ReadyPacketCB
     ((clear_connectTimeout (sh\<lparr>connectAttempts := 0, reconnectInterval := 1000, connecting := False\<rparr>))
        \<lparr>status := Ready,
          presence := set_prop ''status'' (JStr ''online'')
             (presence (clear_connectTimeout (sh\<lparr>connectAttempts := 0, reconnectInterval := 1000, connecting := False\<rparr>)))\<rparr>)"
  have f: "ws sh3 = Some OPEN" "budget (Suc k) (globalBucket sh3)" "status sh3 \<noteq> Resuming"
    "status sh3 = Ready" "seq sh3 = seq sh" "sessionID sh3 = sessionID sh"
    "lastHeartbeatAck sh3 = lastHeartbeatAck sh" "frames (trace sh3) = frames (trace sh)"
    "the_client sh3 = the_client sh"
    using assms by (simp_all add: sh3_def clear_connectTimeout_def effect_def frames_append)
  define sh4 where "sh4 = sent HEARTBEAT (JNum (seq sh3))
             (sh3\<lparr>lastHeartbeatAck := lastHeartbeatAck sh3 \<and> \<not> False,
                  lastHeartbeatSent := Some (now sh3)\<rparr>)"
  have hb: "heartbeat False sh3 = sh4"
    unfolding sh4_def using f(3,1,2) by (intro heartbeat_now) simp_all
  have b4: "budget k (globalBucket sh4)"
    unfolding sh4_def using f(2) by (intro budget_sent) simp
  have r: "resumed sh = effect (SuperEmit ''resume'') (sh4\<lparr>preReady := True, ready := True\<rparr>)"
    by (simp add: resumed_def Let_def sh3_def [symmetric] hb)
  show "status (resumed sh) = Ready" and "ws (resumed sh) = Some OPEN"
    and "lastHeartbeatAck (resumed sh) = lastHeartbeatAck sh"
    and "sessionID (resumed sh) = sessionID sh"
    and "frames (trace (resumed sh)) = frames (trace sh) @ [(HEARTBEAT, JNum (seq sh))]"
    and "the_client (resumed sh) = the_client sh"
    by (simp_all add: r effect_def sh4_def sent_fields f frames_append)
  show "budget k (globalBucket (resumed sh))"
    using b4 by (simp add: r effect_def)
qed

lemma onWSMessage_resumed:
  assumes "pkt_op q = EVENT" and "pkt_t q = RESUMED"
    and "\<not> disableEvents (client_options (the_client sh)) RESUMED"
    and "ws sh = Some OPEN" and "budget (Suc k) (globalBucket sh)"
  shows "status (onWSMessage q sh) = Ready" and "ws (onWSMessage q sh) = Some OPEN"
    and "lastHeartbeatAck (onWSMessage q sh) = lastHeartbeatAck sh"
    and "sessionID (onWSMessage q sh) = sessionID sh"
    and "budget k (globalBucket (onWSMessage q sh))"
    and "frames (trace (onWSMessage q sh)) = frames (trace sh)
           @ [(HEARTBEAT, JNum (seq (sequence_update q sh)))]"
    and "the_client (onWSMessage q sh) = the_client sh"
proof -
  define X where "X = sequence_update q (raw_event q sh)"
  have x: "ws X = Some OPEN" "budget (Suc k) (globalBucket X)"
    using assms by (simp_all add: X_def arrival)
  have m: "onWSMessage q sh = resumed X"
    using assms(1,2,3)
    by (simp add: onWSMessage_def onPacket_def op_switch_def wsEvent_def X_def arrival)
  show "status (onWSMessage q sh) = Ready" and "ws (onWSMessage q sh) = Some OPEN"
    and "lastHeartbeatAck (onWSMessage q sh) = lastHeartbeatAck sh"
    and "sessionID (onWSMessage q sh) = sessionID sh"
    and "budget k (globalBucket (onWSMessage q sh))"
    and "frames (trace (onWSMessage q sh)) = frames (trace sh)
           @ [(HEARTBEAT, JNum (seq (sequence_update q sh)))]"
    and "the_client (onWSMessage q sh) = the_client sh"
    using resumed_now [OF x] by (simp_all add: m) (simp_all add: X_def arrival)
qed


lemma shard_abc_fields:
  "ws shard_abc = Some OPEN" "status shard_abc = Handshaking" "sessionID shard_abc = Some ''abc''"
  "the_token shard_abc = Some ''Bot X''" "seq shard_abc = 42" "lastHeartbeatAck shard_abc"
  "globalBucket shard_abc = new_Bucket 120 60000 5" "the_client shard_abc = client_X"
  "the_modules shard_abc = modules_X" "shard_id shard_abc = 0"
  "trace shard_abc = [Emit ''connect'' [V (JNum 0)]]"
  by (simp_all add: shard_abc_def onWSOpen_def emit_def effect_def the_id_def shard_0_def Let_def)

lemma budget_new_Bucket: "k \<le> 115 \<Longrightarrow> budget k (new_Bucket 120 60000 5)"
  by (simp add: budget_def new_Bucket_def)


section \<open>The heartbeat timer\<close>

lemma zombie_heartbeat:
  assumes "ws sh = Some rs" and "status sh \<noteq> Resuming" and "\<not> lastHeartbeatAck sh"
  shows "heartbeat_timer sh =
           disconnect Auto
             (Some (JsError
                [L ''Server didn't acknowledge previous heartbeat, possible lost connection''] None))
             (emit ''debug''
                [T [L ''Heartbeat timeout; '',
                    J (JObj [(''lastReceived'', num_or_null (lastHeartbeatReceived sh)),
                             (''lastSent'', num_or_null (lastHeartbeatSent sh)),
                             (''interval'', num_or_null (heartbeatInterval sh)),
                             (''status'', JStr (status_str (status sh))),
                             (''timestamp'', JNum (now sh))])]] sh)"
  using assms by (simp add: heartbeat_timer_def heartbeat_def)

text \<open>
  C2 (amended). When the periodic heartbeat fires on a shard that holds a socket, whose
  status is not \<open>resuming\<close> and whose last heartbeat was not acknowledged, the shard
  disconnects with \<open>reconnect: "auto"\<close>: the socket is given up, the timer is stopped, the
  error about the unacknowledged heartbeat is emitted, the reconnect is asked of the shard
  manager (when \<open>autoreconnect\<close> is on), and no frame is written. While the status is
  \<open>resuming\<close> the timer's callback returns before it looks at the acknowledgement.
\<close>

theorem C2_zombie_heartbeat:
  "(ws sh = Some rs \<and> status sh \<noteq> Resuming \<and> \<not> lastHeartbeatAck sh \<longrightarrow>
      ws (heartbeat_timer sh) = None
      \<and> status (heartbeat_timer sh) = Disconnected
      \<and> heartbeatInterval (heartbeat_timer sh) = None
      \<and> frames (trace (heartbeat_timer sh)) = frames (trace sh)
      \<and> filter is_error (trace (heartbeat_timer sh)) = filter is_error (trace sh)
           @ [Emit ''error''
                [E (JsError
                      [L ''Server didn't acknowledge previous heartbeat, possible lost connection'']
                      None), the_id sh]]
      \<and> filter is_connect (trace (heartbeat_timer sh)) = filter is_connect (trace sh)
           @ (if autoreconnect (client_options (the_client sh))
              then [if held (sessionID sh)
                       \<and> connectAttempts sh < maxResumeAttempts (client_options (the_client sh))
                    then ShardsConnect
                    else SetTimeoutShardsConnect (reconnectInterval sh)]
              else []))
   \<and> (status sh = Resuming \<longrightarrow> heartbeat_timer sh = sh)"
proof -
  define sh' where "sh' = emit ''debug''
                [T [L ''Heartbeat timeout; '',
                    J (JObj [(''lastReceived'', num_or_null (lastHeartbeatReceived sh)),
                             (''lastSent'', num_or_null (lastHeartbeatSent sh)),
                             (''interval'', num_or_null (heartbeatInterval sh)),
                             (''status'', JStr (status_str (status sh))),
                             (''timestamp'', JNum (now sh))])]] sh"
  have f: "ws sh' = ws sh" "the_id sh' = the_id sh" "the_client sh' = the_client sh"
    "sessionID sh' = sessionID sh" "connectAttempts sh' = connectAttempts sh"
    "reconnectInterval sh' = reconnectInterval sh" "frames (trace sh') = frames (trace sh)"
    "filter is_error (trace sh') = filter is_error (trace sh)"
    "filter is_connect (trace sh') = filter is_connect (trace sh)"
    by (simp_all add: sh'_def emit_def effect_def the_id_def frames_append)
  have 1: "ws (heartbeat_timer sh) = None
      \<and> status (heartbeat_timer sh) = Disconnected
      \<and> heartbeatInterval (heartbeat_timer sh) = None
      \<and> frames (trace (heartbeat_timer sh)) = frames (trace sh)
      \<and> filter is_error (trace (heartbeat_timer sh)) = filter is_error (trace sh)
           @ [Emit ''error''
                [E (JsError
                      [L ''Server didn't acknowledge previous heartbeat, possible lost connection'']
                      None), the_id sh]]
      \<and> filter is_connect (trace (heartbeat_timer sh)) = filter is_connect (trace sh)
           @ (if autoreconnect (client_options (the_client sh))
              then [if held (sessionID sh)
                       \<and> connectAttempts sh < maxResumeAttempts (client_options (the_client sh))
                    then ShardsConnect
                    else SetTimeoutShardsConnect (reconnectInterval sh)]
              else [])"
    if a: "ws sh = Some rs" "status sh \<noteq> Resuming" "\<not> lastHeartbeatAck sh"
  proof -
    have w: "ws sh' = Some rs" using a(1) by (simp add: f)
    have h: "heartbeat_timer sh = disconnect Auto
             (Some (JsError
                [L ''Server didn't acknowledge previous heartbeat, possible lost connection''] None))
             sh'"
      using zombie_heartbeat [OF a] by (simp add: sh'_def)
    show ?thesis
      unfolding h
      using disconnect_held(1,2,3,8,10,11) [OF w, of Auto]
      by (simp add: f)
  qed
  have 2: "heartbeat_timer sh = sh" if "status sh = Resuming"
    using that by (simp add: heartbeat_timer_def heartbeat_resuming)
  from 1 2 show ?thesis by blast
qed

lemma unacknowledged_fields:
  "ws unacknowledged = Some OPEN" "status unacknowledged = Ready"
  "\<not> lastHeartbeatAck unacknowledged" "sessionID unacknowledged = Some ''abc''"
  "budget 1 (globalBucket unacknowledged)"
proof -
  define s2 where "s2 = onWSMessage hello_packet shard_abc"
  define s3 where "s3 = onWSMessage resumed_packet s2"
  have p: "pkt_op hello_packet = HELLO" "pkt_d hello_packet = Hello 41250 (JArr [])"
    "pkt_op resumed_packet = EVENT" "pkt_t resumed_packet = RESUMED"
    by (simp_all add: hello_packet_def resumed_packet_def)
  have b: "budget (Suc 3) (globalBucket shard_abc)"
    by (simp add: shard_abc_fields budget_new_Bucket)
  have h: "held (sessionID shard_abc)" by (simp add: shard_abc_fields)
  note f2 = onWSMessage_hello_resume [OF p(1,2) shard_abc_fields(1) b h, folded s2_def]
  have b2: "budget (Suc 2) (globalBucket s2)" using f2(5) by (simp add: numeral_3_eq_3)
  have d: "\<not> disableEvents (client_options (the_client s2)) RESUMED"
    by (simp add: f2(7) shard_abc_fields client_X_def)
  note f3 = onWSMessage_resumed [OF p(3,4) d f2(2) b2, folded s3_def]
  have b3: "budget (Suc 1) (globalBucket s3)" using f3(5) by (simp add: numeral_2_eq_2)
  have a2: "lastHeartbeatAck s2" "sessionID s2 = Some ''abc''"
    using f2(3,4) by (simp_all add: shard_abc_fields)
  have a3: "lastHeartbeatAck s3" "sessionID s3 = Some ''abc''"
    using f3(3,4) a2 by simp_all
  have u: "unacknowledged = sent HEARTBEAT (JNum (seq s3))
             (s3\<lparr>lastHeartbeatAck := lastHeartbeatAck s3 \<and> \<not> True,
                 lastHeartbeatSent := Some (now s3)\<rparr>)"
    unfolding unacknowledged_def s3_def [symmetric] s2_def [symmetric] heartbeat_timer_def
    using f3(1,2) b3 a3(1) by (intro heartbeat_now) simp_all
  show "ws unacknowledged = Some OPEN" "status unacknowledged = Ready"
    "\<not> lastHeartbeatAck unacknowledged" "sessionID unacknowledged = Some ''abc''"
    by (simp_all add: u sent_fields f3(1,2) a3)
  show "budget 1 (globalBucket unacknowledged)"
    unfolding u using b3 by (intro budget_sent) simp
qed

theorem C2_zombie_heartbeat_witness:
  "ws unacknowledged = Some OPEN \<and> status unacknowledged \<noteq> Resuming
   \<and> \<not> lastHeartbeatAck unacknowledged
   \<and> ws (heartbeat_timer unacknowledged) = None
   \<and> status (heartbeat_timer unacknowledged) = Disconnected
   \<and> heartbeatInterval (heartbeat_timer unacknowledged) = None
   \<and> frames (trace (heartbeat_timer unacknowledged)) = frames (trace unacknowledged)"
  using C2_zombie_heartbeat [of unacknowledged OPEN]
  by (simp add: unacknowledged_fields)

text \<open>
  Against "whenever the timer fires while \<open>lastHeartbeatAck\<close> is false, the shard
  disconnects": after the run \<open>second_hello\<close> the last heartbeat is unacknowledged and the
  status is \<open>resuming\<close>; the timer fires and the shard is as before, its socket open.
\<close>

theorem C2_resuming_counterexample:
  "ws second_hello = Some OPEN \<and> \<not> lastHeartbeatAck second_hello
   \<and> heartbeat_timer second_hello = second_hello"
proof -
  have p: "pkt_op hello_packet = HELLO" "pkt_d hello_packet = Hello 41250 (JArr [])"
    by (simp_all add: hello_packet_def)
  have b: "budget (Suc 0) (globalBucket unacknowledged)"
    using unacknowledged_fields(5) by simp
  have h: "held (sessionID unacknowledged)" by (simp add: unacknowledged_fields)
  note f = onWSMessage_hello_resume [OF p unacknowledged_fields(1) b h, folded second_hello_def]
  from f(1,2,3) unacknowledged_fields(3) show ?thesis
    by (simp add: heartbeat_timer_def heartbeat_resuming)
qed

section \<open>An invalid session\<close>






section \<open>Member requests and their chunks\<close>

lemma same_session_kept: "same_session a b \<Longrightarrow> kept a b"
  by (simp add: same_session_def kept_def)

lemma kept_refl: "kept a a"
  by (simp add: kept_def)

lemma kept_trans: "kept a b \<Longrightarrow> kept b c \<Longrightarrow> kept a c"
  by (simp add: kept_def)


lemma map_of_remove_key:
  "map_of (remove_key k es) k' = (if k' = k then None else map_of es k')"
  by (induction es) (auto simp: remove_key_def)

lemma requestClubMembers_kept: "kept sh (shard_of (requestClubMembers c opts sh))"
proof -
  define sh0 where "sh0 = sh\<lparr>drawn := Suc (drawn sh)\<rparr>"
  have 0: "kept sh sh0" by (simp add: kept_def sh0_def)
  have 1: "kept sh0 (sendWS GET_CLUB_MEMBERS d False sh0)" for d
    by (intro same_session_kept sendWS_same)
  have 2: "kept x ((effect (SetRequestTimeout n ms) x)\<lparr>requestMembersPromise := es\<rparr>)" for x n ms es
    by (simp add: kept_def effect_def resolutions_append cleared_timeouts_append)
  have "kept sh0 (shard_of (requestClubMembers c opts sh))"
    unfolding requestClubMembers_def Let_def sh0_def [symmetric]
    using kept_trans [OF 1 2] by (auto simp: kept_refl)
  with 0 show ?thesis by (rule kept_trans)
qed



text \<open>A chunk that is not the last one is appended to the buffer of its request.\<close>

lemma members_chunk_partial:
  assumes "pkt_d p = MembersChunk cid ms nonce idx cnt" and "cid \<in> set (clubs (the_client sh))"
    and "map_of (requestMembersPromise sh) (nonce_key nonce) = Some r" and "idx < cnt - 1"
  shows "members_chunk p sh =
           Returns ((emit ''clubMemberChunk'' [V (JStr cid), V (JArr (with_ids ms))]
                      (sh\<lparr>requestMembersPromise :=
                            assign (nonce_key nonce) (r\<lparr>members := members r @ with_ids ms\<rparr>)
                              (requestMembersPromise sh)\<rparr>))
                    \<lparr>lastHeartbeatAck := True\<rparr>)"
  using assms
  by (simp add: members_chunk_def Let_def with_ids_def push_members_def)


lemma arrival_cleared:
  "cleared_timeouts (trace (sequence_update p (raw_event p sh))) = cleared_timeouts (trace sh)"
  by (simp add: sequence_update_def raw_event_def emit_def effect_def cleared_timeouts_append
      split: option.splits)


lemma onWSMessage_partial_chunk:
  assumes "partial_chunk k sh p"
    and "\<not> disableEvents (client_options (the_client sh)) CLUB_MEMBERS_CHUNK"
    and "map_of (requestMembersPromise sh) k = Some r"
  shows "requestMembersPromise (onWSMessage p sh)
           = assign k (r\<lparr>members := members r @ chunk_of p\<rparr>) (requestMembersPromise sh)"
    and "resolutions (trace (onWSMessage p sh)) = resolutions (trace sh)"
    and "cleared_timeouts (trace (onWSMessage p sh)) = cleared_timeouts (trace sh)"
    and "the_client (onWSMessage p sh) = the_client sh"
    and "ws (onWSMessage p sh) = ws sh"
proof -
  from assms(1) obtain cid ms nonce idx cnt where
    d: "pkt_d p = MembersChunk cid ms nonce idx cnt" and
    c: "pkt_op p = EVENT" "pkt_t p = CLUB_MEMBERS_CHUNK" "nonce_key nonce = k"
      "cid \<in> set (clubs (the_client sh))" "idx < cnt - 1"
    by (auto simp: partial_chunk_def chunk_for_def last_chunk_def split: payload.splits)
  define X where "X = sequence_update p (raw_event p sh)"
  have x: "cid \<in> set (clubs (the_client X))"
    "map_of (requestMembersPromise X) (nonce_key nonce) = Some r"
    using c assms(3) by (simp_all add: X_def arrival arrival_cleared)
  have m: "onWSMessage p sh =
      (emit ''clubMemberChunk'' [V (JStr cid), V (JArr (with_ids ms))]
                      (X\<lparr>requestMembersPromise :=
                            assign (nonce_key nonce) (r\<lparr>members := members r @ with_ids ms\<rparr>)
                              (requestMembersPromise X)\<rparr>))
                    \<lparr>lastHeartbeatAck := True\<rparr>"
    using c(1,2) assms(2) members_chunk_partial [OF d x c(5)]
    by (simp add: onWSMessage_def onPacket_def op_switch_def wsEvent_def X_def arrival)
  have ch: "chunk_of p = with_ids ms" by (simp add: chunk_of_def d)
  show "requestMembersPromise (onWSMessage p sh)
           = assign k (r\<lparr>members := members r @ chunk_of p\<rparr>) (requestMembersPromise sh)"
    and "resolutions (trace (onWSMessage p sh)) = resolutions (trace sh)"
    and "cleared_timeouts (trace (onWSMessage p sh)) = cleared_timeouts (trace sh)"
    and "the_client (onWSMessage p sh) = the_client sh"
    and "ws (onWSMessage p sh) = ws sh"
    by (simp_all add: m emit_def effect_def resolutions_append cleared_timeouts_append ch c(3))
       (simp_all add: X_def arrival arrival_cleared)
qed



lemma request_timeout_settles:
  assumes "map_of (requestMembersPromise sh) k = Some r"
  shows "resolutions (trace (request_timeout k sh)) = resolutions (trace sh) @ [(k, JArr (members r))]"
    and "map_of (requestMembersPromise (request_timeout k sh)) k = None"
  using assms
  by (simp_all add: request_timeout_def effect_def resolutions_append map_of_remove_key)



lemma requestClubMembers_all:
  assumes "intents (client_options (the_client sh)) = Some n"
    and "(n AND Intents_clubMembers (the_modules sh)) \<noteq> 0"
  shows "requestMembersPromise (shard_of (requestClubMembers c None sh))
           = assign (nonces sh (drawn sh))
               \<lparr>received = 0, members = [], timeout = requestTimeout (client_options (the_client sh))\<rparr>
               (requestMembersPromise sh)"
    and "ws (shard_of (requestClubMembers c None sh)) = ws sh"
proof -
  define sh0 where "sh0 = sh\<lparr>drawn := Suc (drawn sh)\<rparr>"
  define opts where "opts = JObj [(''club_id'', c), (''limit'', JNum 0), (''user_ids'', JUndef),
      (''query'', JStr []), (''nonce'', JStr (nonces sh (drawn sh))), (''presences'', JUndef)]"
  define sh1 where "sh1 = sendWS GET_CLUB_MEMBERS opts False sh0"
  have s: "same_session sh0 sh1" unfolding sh1_def by (rule sendWS_same)
  then have f: "requestMembersPromise sh1 = requestMembersPromise sh" "ws sh1 = ws sh"
    "the_client sh1 = the_client sh"
    by (simp_all add: same_session_def sh0_def)
  have "requestClubMembers c None sh =
      Returns ((effect (SetRequestTimeout (nonces sh (drawn sh))
                  (requestTimeout (client_options (the_client sh1)))) sh1)
        \<lparr>requestMembersPromise :=
           assign (nonces sh (drawn sh))
             \<lparr>received = 0, members = [],
                timeout = requestTimeout (client_options (the_client sh1))\<rparr>
             (requestMembersPromise sh1)\<rparr>)"
    using assms
    by (simp add: requestClubMembers_def Let_def or_default_def effect_def sh1_def sh0_def opts_def)
  then show "requestMembersPromise (shard_of (requestClubMembers c None sh))
           = assign (nonces sh (drawn sh))
               \<lparr>received = 0, members = [], timeout = requestTimeout (client_options (the_client sh))\<rparr>
               (requestMembersPromise sh)"
    and "ws (shard_of (requestClubMembers c None sh)) = ws sh"
    by (simp_all add: effect_def f)
qed

lemma requested_fields:
  "requestMembersPromise (shard_of (requestClubMembers c None shard_open))
     = [(''n'', \<lparr>received = 0, members = [], timeout = 15000\<rparr>)]"
  "ws (shard_of (requestClubMembers c None shard_open)) = Some OPEN"
  "the_client (shard_of (requestClubMembers c None shard_open)) = client_X"
  "resolutions (trace (shard_of (requestClubMembers c None shard_open))) = []"
  "cleared_timeouts (trace (shard_of (requestClubMembers c None shard_open))) = []"
proof -
  have i: "intents (client_options (the_client shard_open)) = Some 515"
    "(515 AND Intents_clubMembers (the_modules shard_open)) \<noteq> 0"
    by (simp_all add: shard_open_fields client_X_def modules_X_def)
  from requestClubMembers_all [OF i]
  show "requestMembersPromise (shard_of (requestClubMembers c None shard_open))
     = [(''n'', \<lparr>received = 0, members = [], timeout = 15000\<rparr>)]"
    "ws (shard_of (requestClubMembers c None shard_open)) = Some OPEN"
    by (simp_all add: shard_open_fields client_X_def)
  from requestClubMembers_kept [of shard_open c None]
  show "the_client (shard_of (requestClubMembers c None shard_open)) = client_X"
    "resolutions (trace (shard_of (requestClubMembers c None shard_open))) = []"
    "cleared_timeouts (trace (shard_of (requestClubMembers c None shard_open))) = []"
    by (simp_all add: kept_def shard_open_fields)
qed


lemma chunk_facts:
  "partial_chunk ''n'' (shard_of (requestClubMembers c None shard_open)) chunk_1of2"
  "chunk_for ''n'' (shard_of (requestClubMembers c None shard_open)) chunk_2of2"
  "last_chunk chunk_2of2"
  "chunk_of chunk_1of2 = [JObj [(''user'', JObj [(''id'', JStr ''u1'')]), (''id'', JStr ''u1'')]]"
  "chunk_of chunk_2of2 = [JObj [(''user'', JObj [(''id'', JStr ''u2'')]), (''id'', JStr ''u2'')]]"
  "\<not> disableEvents (client_options (the_client (shard_of (requestClubMembers c None shard_open))))
       CLUB_MEMBERS_CHUNK"
  by (simp_all add: partial_chunk_def chunk_for_def last_chunk_def chunk_of_def with_ids_def
      chunk_1of2_def chunk_2of2_def member_u1_def member_u2_def nonce_key_def requested_fields
      client_X_def)



text \<open>
  C6. Disconnecting a shard clears the timer of every outstanding member request and
  resolves its promise, but with the entry's field \<open>received\<close>, which is 0 from the
  request on, where the timer's callback and the last chunk resolve with \<open>members\<close>: after
  a first chunk of one member the promise is resolved with the number 0, not with the
  member received so far.
\<close>

theorem C6_disconnect_resolves_with_received:
  "requestMembersPromise (onWSMessage chunk_1of2 requested_A)
     = [(''n'', \<lparr>received = 0,
                members = [JObj [(''user'', JObj [(''id'', JStr ''u1'')]), (''id'', JStr ''u1'')]],
                timeout = 15000\<rparr>)]
   \<and> resolutions (trace (disconnect Auto None (onWSMessage chunk_1of2 requested_A)))
       = [(''n'', JNum 0)]
   \<and> cleared_timeouts (trace (disconnect Auto None (onWSMessage chunk_1of2 requested_A)))
       = [''n'']
   \<and> resolutions (trace (request_timeout ''n'' (onWSMessage chunk_1of2 requested_A)))
       = [(''n'', JArr [JObj [(''user'', JObj [(''id'', JStr ''u1'')]), (''id'', JStr ''u1'')]])]"
proof -
  define busy where "busy = onWSMessage chunk_1of2 requested_A"
  have m: "map_of (requestMembersPromise requested_A) ''n''
     = Some \<lparr>received = 0, members = [], timeout = 15000\<rparr>"
    by (simp add: requested_A_def requested_fields)
  have d: "\<not> disableEvents (client_options (the_client requested_A)) CLUB_MEMBERS_CHUNK"
    using chunk_facts(6) by (simp add: requested_A_def)
  have l: "partial_chunk ''n'' requested_A chunk_1of2"
    using chunk_facts(1) by (simp add: requested_A_def)
  note step = onWSMessage_partial_chunk [OF l d m, folded busy_def]
  have b: "requestMembersPromise busy
     = [(''n'', \<lparr>received = 0,
                members = [JObj [(''user'', JObj [(''id'', JStr ''u1'')]), (''id'', JStr ''u1'')]],
                timeout = 15000\<rparr>)]"
    "ws busy = Some OPEN" "resolutions (trace busy) = []" "cleared_timeouts (trace busy) = []"
    using step by (simp_all add: requested_A_def requested_fields chunk_facts)
  have mb: "map_of (requestMembersPromise busy) ''n''
     = Some \<lparr>received = 0,
              members = [JObj [(''user'', JObj [(''id'', JStr ''u1'')]), (''id'', JStr ''u1'')]],
              timeout = 15000\<rparr>"
    by (simp add: b)
  from disconnect_held(9,12) [OF b(2), of Auto None] request_timeout_settles(1) [OF mb] b
  show ?thesis by (simp add: busy_def [symmetric])
qed

section \<open>The sequence counter\<close>


















end
